theory Spec2Isabelle
  imports Main "HOL-Library.Word" "HOL-Library.Sublist"
begin

section \<open>Python values and library functions used by decompile.py\<close>

text \<open>
  The stored constant of a field (\<^verbatim>\<open>field.init_value.value\<close>) is a dynamically typed Python
  value. \<open>PyObject t s\<close> stands for a value of any other Python type (a float, a list, an
  encoded annotation): \<open>t\<close> is its truth value and \<open>s\<close> the text \<^verbatim>\<open>str\<close> gives for it.
\<close>

datatype pyval = PyNone | PyBool bool | PyInt int | PyStr string | PyObject bool string

text \<open>
  The exceptions that the modelled code raises: all of them instances of \<^verbatim>\<open>Exception\<close>, which
  is what \<^verbatim>\<open>except Exception\<close> in \<^verbatim>\<open>DvClass.process\<close> catches.
\<close>

datatype exn = StructError | AttributeError | IndexError | Raised string

text \<open>Truth value of a Python value, as tested by \<^verbatim>\<open>if value:\<close>.\<close>

fun truthy :: "pyval \<Rightarrow> bool" where
  "truthy PyNone = False"
| "truthy (PyBool b) = b"
| "truthy (PyInt i) = (i \<noteq> 0)"
| "truthy (PyStr s) = (s \<noteq> [])"
| "truthy (PyObject t s) = t"

text \<open>\<^verbatim>\<open>a in b\<close> on two strings: \<open>a\<close> occurs in \<open>b\<close> as a contiguous substring.\<close>

fun py_in :: "string \<Rightarrow> string \<Rightarrow> bool" where
  "py_in a [] = (a = [])"
| "py_in a (c # cs) = (prefix a (c # cs) \<or> py_in a cs)"

text \<open>\<^verbatim>\<open>val == 'True'\<close>: only a string compares equal to a string.\<close>

fun py_eq_str :: "pyval \<Rightarrow> string \<Rightarrow> bool" where
  "py_eq_str (PyStr s) t = (s = t)"
| "py_eq_str _ t = False"

text \<open>Digits of a natural number in a base up to 16, lower case, as \<^verbatim>\<open>hex\<close> and \<^verbatim>\<open>str\<close> print them.\<close>

definition digit_char :: "nat \<Rightarrow> char" where
  "digit_char d = ''0123456789abcdef'' ! d"

fun digits :: "nat \<Rightarrow> nat \<Rightarrow> string" where
  "digits b n = (if b < 2 \<or> n < b then [digit_char n]
                 else digits b (n div b) @ [digit_char (n mod b)])"

declare digits.simps [simp del]

text \<open>\<^verbatim>\<open>hex(i)\<close> and \<^verbatim>\<open>str(i)\<close> of a Python integer.\<close>

definition py_hex :: "int \<Rightarrow> string" where
  "py_hex i = (if i < 0 then ''-0x'' @ digits 16 (nat (- i)) else ''0x'' @ digits 16 (nat i))"

definition str_int :: "int \<Rightarrow> string" where
  "str_int i = (if i < 0 then ''-'' @ digits 10 (nat (- i)) else digits 10 (nat i))"

fun py_str :: "pyval \<Rightarrow> string" where
  "py_str PyNone = ''None''"
| "py_str (PyBool b) = (if b then ''True'' else ''False'')"
| "py_str (PyInt i) = str_int i"
| "py_str (PyStr s) = s"
| "py_str (PyObject t s) = s"

text \<open>
  \<^verbatim>\<open>struct.pack("B", v)\<close> accepts an integer in 0..255 (a bool counts as 0 or 1) and raises
  \<^verbatim>\<open>struct.error\<close> on anything else; the result is one byte. \<^verbatim>\<open>struct.unpack("b", bs)[0]\<close>
  reads that byte as a signed, two's-complement value.
\<close>

definition struct_pack_B :: "pyval \<Rightarrow> exn + 8 word" where
  "struct_pack_B v =
     (case v of
        PyInt i \<Rightarrow> if 0 \<le> i \<and> i \<le> 255 then Inr (word_of_int i) else Inl StructError
      | PyBool b \<Rightarrow> Inr (if b then 1 else 0)
      | _ \<Rightarrow> Inl StructError)"

definition struct_unpack_b :: "8 word \<Rightarrow> int" where
  "struct_unpack_b w = sint w"

text \<open>\<^verbatim>\<open>struct.unpack('<b', struct.pack("B", val))[0]\<close>, the expression both renderers use.\<close>

definition signed_byte :: "pyval \<Rightarrow> exn + int" where
  "signed_byte v = (case struct_pack_B v of Inl e \<Rightarrow> Inl e | Inr w \<Rightarrow> Inr (struct_unpack_b w))"

section \<open>Fields and their AST\<close>

text \<open>
  An encoded field of the Dalvik frontend, by the attributes and getters decompile.py reads.
  \<open>init_value = None\<close> is a field without initial value; \<open>Some v\<close> is an encoded value object
  whose \<^verbatim>\<open>.value\<close> is \<open>v\<close>.
\<close>

record field =
  f_class_name :: string
  f_name :: string
  f_descriptor :: string
  proto :: string
  f_access_flags :: int
  f_field_idx :: int
  init_value :: "pyval option"

text \<open>
  The literal constructors of the AST module (dast.py, not among the sources) are kept as
  terms: each constructor below is the call of the function of the same name.
\<close>

datatype expr =
    literal_string pyval
  | literal_bool bool
  | literal_int pyval
  | literal_hex_int int
  | literal_long pyval
  | literal_float pyval
  | literal_double pyval
  | literal_class pyval
  | dummy string

text \<open>\<^verbatim>\<open>parse_descriptor\<close> likewise; its argument is a descriptor or, for a missing superclass, \<^verbatim>\<open>None\<close>.\<close>

datatype type_ast = parse_descriptor "string option"

text \<open>The expression part of \<^verbatim>\<open>get_field_ast\<close>: the if/elif chain on the descriptor, in source order.\<close>

definition field_expr :: "field \<Rightarrow> exn + expr option" where
  "field_expr f =
     (case init_value f of
        None \<Rightarrow> Inr None
      | Some val \<Rightarrow>
          if val = PyNone then Inr None
          else let descriptor = f_descriptor f in
            if descriptor = ''Ljava/lang/String;'' then Inr (Some (literal_string val))
            else if descriptor = ''Z'' then Inr (Some (literal_bool (py_eq_str val ''True'')))
            else if py_in descriptor ''ISC'' then Inr (Some (literal_int val))
            else if proto f = ''B'' then
              (case signed_byte val of Inl e \<Rightarrow> Inl e | Inr i \<Rightarrow> Inr (Some (literal_hex_int i)))
            else if py_in descriptor ''J'' then Inr (Some (literal_long val))
            else if py_in descriptor ''F'' then Inr (Some (literal_float val))
            else if py_in descriptor ''D'' then Inr (Some (literal_double val))
            else if descriptor = ''Ljava/lang/Class;'' then Inr (Some (literal_class val))
            else Inr (Some (dummy (py_str val))))"

section \<open>Rendering the fields of a class\<close>

text \<open>
  The helpers of util.py that the renderers call are not among the sources; they are taken as
  parameters. \<open>ACCESS_FLAGS_FIELDS\<close> is the dictionary from flag bit to keyword, in its order.
\<close>

record util =
  get_access_field :: "int \<Rightarrow> string list"
  get_access_method :: "int \<Rightarrow> string list"
  get_access_class :: "int \<Rightarrow> string list"
  get_type :: "string \<Rightarrow> string"
  get_type_size :: "string \<Rightarrow> int"
  get_params_type :: "string \<Rightarrow> string list"
  ACCESS_FLAGS_FIELDS :: "(int \<times> string) list"

text \<open>\<^verbatim>\<open>sep.join(xs)\<close>.\<close>

fun join :: "string \<Rightarrow> string list \<Rightarrow> string" where
  "join sep [] = []"
| "join sep [x] = x"
| "join sep (x # y # ys) = x @ sep @ join sep (y # ys)"

text \<open>
  \<^verbatim>\<open>s.encode("unicode-escape").decode("ascii")\<close>, on strings whose characters are code points
  below 256: the backslash is doubled, tab, newline and carriage return get their letter, any
  other character outside the printable ASCII range becomes \<^verbatim>\<open>\xNN\<close>.
\<close>

abbreviation backslash :: char where "backslash \<equiv> CHR 0x5C"
abbreviation dquote :: char where "dquote \<equiv> CHR 0x22"

definition escape_char :: "char \<Rightarrow> string" where
  "escape_char c =
     (let n = (of_char c :: nat) in
      if c = backslash then [backslash, backslash]
      else if n = 9 then [backslash, CHR ''t'']
      else if n = 10 then [backslash, CHR ''n'']
      else if n = 13 then [backslash, CHR ''r'']
      else if n < 32 \<or> 127 \<le> n then [backslash, CHR ''x'', digit_char (n div 16), digit_char (n mod 16)]
      else [c])"

definition unicode_escape :: "string \<Rightarrow> string" where
  "unicode_escape s = concat (map escape_char s)"

text \<open>
  The value text of an initialised field in \<^verbatim>\<open>DvClass.get_source\<close>: the branch on
  \<^verbatim>\<open>f_type == 'String'\<close>, then on \<^verbatim>\<open>field.proto == 'B'\<close>; any other value is formatted by
  \<^verbatim>\<open>'{}'.format\<close>.
\<close>

definition source_value :: "string \<Rightarrow> field \<Rightarrow> pyval \<Rightarrow> exn + string" where
  "source_value f_type fld val =
     (if f_type = ''String'' then
        (if truthy val then Inr ([dquote] @ unicode_escape (py_str val) @ [dquote])
         else Inr [dquote, dquote])
      else if proto fld = ''B'' then
        (case signed_byte val of Inl e \<Rightarrow> Inl e | Inr i \<Rightarrow> Inr (py_hex i))
      else Inr (py_str val))"

text \<open>The strings one pass of the field loop of \<^verbatim>\<open>DvClass.get_source\<close> appends to \<^verbatim>\<open>source\<close>.\<close>

definition source_field :: "util \<Rightarrow> field \<Rightarrow> exn + string list" where
  "source_field u fld =
     (let name = f_name fld;
          access = get_access_field u (f_access_flags fld);
          f_type = get_type u (f_descriptor fld);
          head = [''    ''] @ (if access \<noteq> [] then [join '' '' access, '' ''] else [])
      in case init_value fld of
           Some val \<Rightarrow>
             (case source_value f_type fld val of
                Inl e \<Rightarrow> Inl e
              | Inr text \<Rightarrow> Inr (head @ [f_type @ '' '' @ name @ '' = '' @ text @ '';'' @ [CHR 0x0A]]))
         | None \<Rightarrow> Inr (head @ [f_type @ '' '' @ name @ '';'' @ [CHR 0x0A]]))"

text \<open>
  The tuples of \<^verbatim>\<open>get_source_ext\<close>: a tag with a text, with a text and the package, or (for
  a field name) with the name, the type and the field object.
\<close>

datatype ext_token =
    Tok string string
  | TokPkg string string string
  | TokField string string string field

text \<open>
  The value text of an initialised field in \<^verbatim>\<open>DvClass.get_source_ext\<close>. The String branch
  calls \<^verbatim>\<open>value.encode\<close> on the value itself, which only a string has.
\<close>

definition ext_value :: "string \<Rightarrow> field \<Rightarrow> pyval \<Rightarrow> exn + string" where
  "ext_value f_type fld val =
     (if f_type = ''String'' then
        (if truthy val then
           (case val of
              PyStr s \<Rightarrow> Inr ('' = '' @ [dquote] @ unicode_escape s @ [dquote])
            | _ \<Rightarrow> Inl AttributeError)
         else Inr ('' = '' @ [dquote, dquote]))
      else if proto fld = ''B'' then
        (case signed_byte val of Inl e \<Rightarrow> Inl e | Inr i \<Rightarrow> Inr ('' = '' @ py_hex i))
      else Inr ('' = '' @ py_str val))"

text \<open>\<^verbatim>\<open>flag & field_access_flags\<close> selects the keywords of the field.\<close>

definition ext_access :: "util \<Rightarrow> int \<Rightarrow> string list" where
  "ext_access u flags = map snd (filter (\<lambda>(flag, kw). and flag flags \<noteq> 0) (ACCESS_FLAGS_FIELDS u))"

text \<open>The entry one pass of the field loop of \<^verbatim>\<open>DvClass.get_source_ext\<close> appends.\<close>

definition ext_field :: "util \<Rightarrow> field \<Rightarrow> exn + (string \<times> ext_token list)" where
  "ext_field u fld =
     (let access = ext_access u (f_access_flags fld);
          f_type = get_type u (f_descriptor fld);
          name = f_name fld;
          access_str = (if access \<noteq> [] then ''    '' @ join '' '' access @ '' '' else ''    '');
          front = [Tok ''FIELD_ACCESS'' access_str, Tok ''FIELD_TYPE'' f_type, Tok ''SPACE'' '' '',
                   TokField ''NAME_FIELD'' name f_type fld];
          fend = [Tok ''FIELD_END'' ('';'' @ [CHR 0x0A])]
      in case init_value fld of
           None \<Rightarrow> Inr (''FIELD'', front @ fend)
         | Some val \<Rightarrow>
             (case ext_value f_type fld val of
                Inl e \<Rightarrow> Inl e
              | Inr v \<Rightarrow>
                  if v \<noteq> [] then Inr (''FIELD'', front @ [Tok ''FIELD_VALUE'' v] @ fend)
                  else Inr (''FIELD'', front @ fend)))"

section \<open>Methods\<close>

text \<open>Python string operations used on names and descriptors.\<close>

definition replace_char :: "char \<Rightarrow> char \<Rightarrow> string \<Rightarrow> string" where
  "replace_char a b s = map (\<lambda>c. if c = a then b else c) s"

text \<open>\<^verbatim>\<open>s.split(c)[-1]\<close>: what follows the last occurrence of \<open>c\<close>, the whole string if there is none.\<close>

definition after_last :: "char \<Rightarrow> string \<Rightarrow> string" where
  "after_last c s = rev (takeWhile (\<lambda>x. x \<noteq> c) (rev s))"

text \<open>What precedes the last occurrence of \<open>c\<close> (the first part of \<^verbatim>\<open>s.rsplit(c, 1)\<close>).\<close>

definition before_last :: "char \<Rightarrow> string \<Rightarrow> string" where
  "before_last c s = rev (tl (dropWhile (\<lambda>x. x \<noteq> c) (rev s)))"

text \<open>\<^verbatim>\<open>s.find(c)\<close>: the index of the first occurrence, -1 if there is none.\<close>

definition py_find :: "char \<Rightarrow> string \<Rightarrow> int" where
  "py_find c s = (if c \<in> set s then int (length (takeWhile (\<lambda>x. x \<noteq> c) s)) else - 1)"

text \<open>\<^verbatim>\<open>s.upper()\<close> on ASCII text, which the names of generated variables are.\<close>

definition upper_char :: "char \<Rightarrow> char" where
  "upper_char c = (let n = (of_char c :: nat) in if 97 \<le> n \<and> n \<le> 122 then char_of (n - 32) else c)"

definition py_upper :: "string \<Rightarrow> string" where
  "py_upper s = map upper_char s"

text \<open>
  A key of \<^verbatim>\<open>var_to_name\<close> is a register number or the name of a generated variable
  (\<^verbatim>\<open>isinstance(var, int)\<close> tells them apart). Its values are objects of instruction.py, kept
  as terms: the two parameter classes, the upper-cased name of a generated variable, and
  whatever else a pass stores.
\<close>

datatype var = RegVar int | TmpVar string

datatype name_entry = ThisParam int string | Param int string | UpperName string | Stored string

type_synonym env = "var \<Rightarrow> name_entry option"

text \<open>\<^verbatim>\<open>def_uses\<close> and \<^verbatim>\<open>use_defs\<close>: dictionaries from (variable, location) to locations, in key order.\<close>

type_synonym defuse = "((var \<times> int) \<times> int list) list"

record code_item =
  registers_size :: int
  ins_size :: int

record encoded_method =
  m_class_name :: string
  m_name :: string
  m_access_flags :: int
  m_descriptor :: string
  m_triple :: "string \<times> string \<times> string"
  m_code :: "code_item option"
  m_method_idx :: int

text \<open>The method analysis of the frontend: the method, its basic blocks in order, its exception table.\<close>

record ('b, 'x) methanalysis =
  ma_method :: encoded_method
  ma_basic_blocks :: "'b list"
  ma_exceptions :: 'x

text \<open>
  The annotations directory of a class: the offset of the class annotations and, for fields,
  methods and parameters, the pairs of the member's index and the offset of its annotations.
\<close>

record adi_item =
  class_annotations_off :: int
  field_annotations :: "(int \<times> int) list"
  method_annotations :: "(int \<times> int) list"
  parameter_annotations :: "(int \<times> int) list"

text \<open>A decoded annotation, as \<^verbatim>\<open>get_annotations\<close> builds it from the constant pool.\<close>

typedecl annotation

text \<open>
  The frontend (modules analysis and dvm, not among the sources), taken as a parameter:
  \<open>get_method\<close> is \<^verbatim>\<open>vma.get_method\<close>; \<open>get_annotations\<close> and \<open>get_parameter_annotations\<close>
  stand for the two functions of that name applied to the constant pool of the class, whose
  result is determined by the objects the pool returns.
\<close>

record ('b, 'x) frontend =
  get_method :: "encoded_method \<Rightarrow> exn + ('b, 'x) methanalysis"
  get_annotations :: "int list \<Rightarrow> annotation list"
  get_parameter_annotations :: "(int \<times> int) list \<Rightarrow> annotation list list"

text \<open>
  A method of the decompiler. \<open>'g\<close> is the type of graphs, \<open>'w\<close> of writer objects, \<open>'j\<close> of the
  values in the dictionary that is a method's AST; \<open>dm_printed\<close> collects what the constructor
  prints.
\<close>

record ('b, 'x, 'g, 'w, 'j) dvmethod =
  dm_method :: encoded_method
  dm_start_block :: "'b option"
  dm_cls_name :: string
  dm_name :: string
  dm_lparams :: "int list"
  dm_var_to_name :: env
  dm_adi :: "adi_item option"
  dm_writer :: "'w option"
  dm_graph :: "'g option"
  dm_ast :: "(string \<times> 'j) list option"
  dm_access :: "string list"
  dm_type :: string
  dm_params_type :: "string list"
  dm_triple :: "string \<times> string \<times> string"
  dm_exceptions :: 'x
  dm_method_annotations :: "annotation list"
  dm_param_annotations :: "annotation list list"
  dm_printed :: "string list"

text \<open>
  The loop over \<^verbatim>\<open>params_type\<close> in \<^verbatim>\<open>DvMethod.__init__\<close>: \<open>num_param\<close> is the running
  offset, \<open>lp\<close> and \<open>v2n\<close> are \<^verbatim>\<open>lparams\<close> and \<^verbatim>\<open>var_to_name\<close>.
\<close>

fun bind_params :: "util \<Rightarrow> int \<Rightarrow> string list \<Rightarrow> int \<Rightarrow> int list \<times> env \<Rightarrow> int list \<times> env" where
  "bind_params u start [] num_param (lp, v2n) = (lp, v2n)"
| "bind_params u start (ptype # ps) num_param (lp, v2n) =
     (let param = start + num_param
      in bind_params u start ps (num_param + get_type_size u ptype)
           (lp @ [param], v2n(RegVar param \<mapsto> Param param ptype)))"

text \<open>The branch on \<^verbatim>\<open>code\<close>: the registers of the parameters, \<^verbatim>\<open>this\<close> first if not static.\<close>

definition init_params ::
  "util \<Rightarrow> code_item option \<Rightarrow> string list \<Rightarrow> string \<Rightarrow> string list \<Rightarrow> int list \<times> env" where
  "init_params u code access cls_name params_type =
     (case code of
        None \<Rightarrow> ([], Map.empty)
      | Some c \<Rightarrow>
          let start = registers_size c - ins_size c
          in if ''static'' \<notin> set access
             then bind_params u (start + 1) params_type 0
                    ([start], [RegVar start \<mapsto> ThisParam start cls_name])
             else bind_params u start params_type 0 ([], Map.empty))"

text \<open>
  The branch on \<^verbatim>\<open>self.adi\<close>: the annotations of the method and of its parameters, and the
  line printed when the extraction is given up.
\<close>

definition init_annotations ::
  "('b, 'x) frontend \<Rightarrow> adi_item option \<Rightarrow> encoded_method \<Rightarrow> string \<Rightarrow> string \<Rightarrow> string list
     \<Rightarrow> annotation list \<times> annotation list list \<times> string list" where
  "init_annotations fe adi m cls_name name params_type =
     (case adi of
        None \<Rightarrow> ([], replicate (length params_type) [], [])
      | Some a \<Rightarrow>
          let method_idx = m_method_idx m;
              method_annots = map snd (filter (\<lambda>x. fst x = method_idx) (method_annotations a));
              param_annots = filter (\<lambda>x. fst x = method_idx) (parameter_annotations a);
              mas = get_annotations fe method_annots
          in if length param_annots > 0 then
               (let pas = get_parameter_annotations fe param_annots
                in if length pas \<noteq> length params_type then
                     (if int (length params_type) - int (length pas) = 1
                      then (mas, [] # pas, [])
                      else (mas, replicate (length params_type) [],
                            [''Failed to extract annotation from '' @ cls_name @ '' - '' @ name]))
                   else (mas, pas, []))
             else (mas, replicate (length params_type) [], []))"

text \<open>
  \<^verbatim>\<open>DvMethod.__init__\<close>. The branch under \<^verbatim>\<open>not __debug__\<close>, which only draws a picture of the
  graph when Python runs optimised, is left out here and in \<^verbatim>\<open>process\<close>.
\<close>

definition DvMethod_init ::
  "util \<Rightarrow> ('b, 'x) frontend \<Rightarrow> ('b, 'x) methanalysis \<Rightarrow> adi_item option
     \<Rightarrow> ('b, 'x, 'g, 'w, 'j) dvmethod" where
  "DvMethod_init u fe methanalysis adi =
     (let m = ma_method methanalysis;
          access = get_access_method u (m_access_flags m);
          desc = m_descriptor m;
          params_type = get_params_type u desc;
          (lp, v2n) = init_params u (m_code m) access (m_class_name m) params_type;
          (mas, pas, out) = init_annotations fe adi m (m_class_name m) (m_name m) params_type
      in \<lparr> dm_method = m,
           dm_start_block = (case ma_basic_blocks methanalysis of [] \<Rightarrow> None | b # _ \<Rightarrow> Some b),
           dm_cls_name = m_class_name m,
           dm_name = m_name m,
           dm_lparams = lp,
           dm_var_to_name = v2n,
           dm_adi = adi,
           dm_writer = None,
           dm_graph = None,
           dm_ast = None,
           dm_access = access,
           dm_type = after_last (CHR '')'') desc,
           dm_params_type = params_type,
           dm_triple = m_triple m,
           dm_exceptions = ma_exceptions methanalysis,
           dm_method_annotations = mas,
           dm_param_annotations = pas,
           dm_printed = out \<rparr>)"

section \<open>The pipeline of a method\<close>

text \<open>
  The passes live in the modules graph, dataflow, control_flow, writer and dast, which are not
  among the sources. They are parameters. A pass works in place on the objects it is given,
  so each one returns the new state of every mutable argument, or the exception it raises.
  \<open>'d\<close> is the type of the dominator map.
\<close>

record ('b, 'x, 'g, 'd, 'w, 'j) passes =
  construct :: "'b \<Rightarrow> env \<Rightarrow> 'x \<Rightarrow> exn + 'g \<times> env"
  build_def_use :: "'g \<Rightarrow> int list \<Rightarrow> exn + 'g \<times> defuse \<times> defuse"
  split_variables :: "'g \<Rightarrow> env \<Rightarrow> defuse \<Rightarrow> defuse \<Rightarrow> exn + 'g \<times> env \<times> defuse \<times> defuse"
  dead_code_elimination :: "'g \<Rightarrow> defuse \<Rightarrow> defuse \<Rightarrow> exn + 'g \<times> defuse \<times> defuse"
  register_propagation :: "'g \<Rightarrow> defuse \<Rightarrow> defuse \<Rightarrow> exn + 'g \<times> defuse \<times> defuse"
  resolve_variables_type :: "'g \<Rightarrow> env \<Rightarrow> defuse \<Rightarrow> defuse \<Rightarrow> exn + 'g \<times> env \<times> defuse \<times> defuse"
  new_instance_propgation :: "'g \<Rightarrow> defuse \<Rightarrow> defuse \<Rightarrow> exn + 'g \<times> defuse \<times> defuse"
  place_declarations :: "'g \<Rightarrow> env \<Rightarrow> defuse \<Rightarrow> defuse \<Rightarrow> exn + 'g \<times> env \<times> defuse \<times> defuse"
  split_if_nodes :: "'g \<Rightarrow> exn + 'g"
  simplify :: "'g \<Rightarrow> exn + 'g"
  compute_rpo :: "'g \<Rightarrow> exn + 'g"
  immediate_dominators :: "'g \<Rightarrow> exn + 'd"
  identify_structures :: "'g \<Rightarrow> 'd \<Rightarrow> exn + 'g"
  Writer :: "'g option \<Rightarrow> ('b, 'x, 'g, 'w, 'j) dvmethod \<Rightarrow> exn + 'w"
  write_method :: "'w \<Rightarrow> exn + 'w"
  writer_str :: "'w \<Rightarrow> string"
  writer_str_ext :: "'w \<Rightarrow> ext_token list"
  JSONWriter_get_ast :: "'g option \<Rightarrow> ('b, 'x, 'g, 'w, 'j) dvmethod \<Rightarrow> exn + (string \<times> 'j) list"

text \<open>
  What \<^verbatim>\<open>process\<close> does, in the order it does it: one event per call of a pass or of a
  writer (with the graph handed to it), and one for the loop that registers the generated
  variables.
\<close>

datatype 'g event =
    Ev_construct
  | Ev_build_def_use
  | Ev_split_variables
  | Ev_dead_code_elimination
  | Ev_register_propagation
  | Ev_resolve_variables_type
  | Ev_new_instance_propgation
  | Ev_register_tmp_variables
  | Ev_place_declarations
  | Ev_split_if_nodes
  | Ev_simplify
  | Ev_compute_rpo
  | Ev_immediate_dominators
  | Ev_identify_structures
  | Ev_Writer "'g option"
  | Ev_write_method
  | Ev_JSONWriter "'g option"

text \<open>
  One call: the event is recorded; if the call raises, \<^verbatim>\<open>process\<close> ends there with the
  exception and the method as it is at that moment, otherwise the rest runs on the result.
\<close>

definition call ::
  "'g event \<Rightarrow> exn + 'a \<Rightarrow> 's \<Rightarrow> ('a \<Rightarrow> exn option \<times> 's \<times> 'g event list)
     \<Rightarrow> exn option \<times> 's \<times> 'g event list" where
  "call ev r s rest =
     (case r of
        Inl e \<Rightarrow> (Some e, s, [ev])
      | Inr a \<Rightarrow> (case rest a of (x, s', tr) \<Rightarrow> (x, s', ev # tr)))"

text \<open>
  The loop \<^verbatim>\<open>for var, i in def_uses: if not isinstance(var, int): self.var_to_name[var] = var.upper()\<close>.
\<close>

fun register_tmp_variables :: "defuse \<Rightarrow> env \<Rightarrow> env" where
  "register_tmp_variables [] v2n = v2n"
| "register_tmp_variables (((RegVar r, i), uses) # rest) v2n = register_tmp_variables rest v2n"
| "register_tmp_variables (((TmpVar n, i), uses) # rest) v2n =
     register_tmp_variables rest (v2n(TmpVar n \<mapsto> UpperName (py_upper n)))"

text \<open>
  The end of \<^verbatim>\<open>process\<close>, shared by both branches: the AST from a JSON writer, or a writer
  that writes the method.
\<close>

definition emit ::
  "('b, 'x, 'g, 'd, 'w, 'j) passes \<Rightarrow> bool \<Rightarrow> 'g option \<Rightarrow> ('b, 'x, 'g, 'w, 'j) dvmethod
     \<Rightarrow> exn option \<times> ('b, 'x, 'g, 'w, 'j) dvmethod \<times> 'g event list" where
  "emit P doAST graph self =
     (if doAST then
        call (Ev_JSONWriter graph) (JSONWriter_get_ast P graph self) self
          (\<lambda>ast. (None, self\<lparr>dm_ast := Some ast\<rparr>, []))
      else
        call (Ev_Writer graph) (Writer P graph self) self (\<lambda>w.
        call Ev_write_method (write_method P w) (self\<lparr>dm_writer := Some w\<rparr>) (\<lambda>w'.
          (None, self\<lparr>dm_writer := Some w'\<rparr>, []))))"

text \<open>
  \<^verbatim>\<open>self.graph\<close> and \<^verbatim>\<open>self.var_to_name\<close> are the objects the passes work on, so the method
  always holds their current state.
\<close>

definition holding ::
  "('b, 'x, 'g, 'w, 'j) dvmethod \<Rightarrow> 'g \<Rightarrow> env \<Rightarrow> ('b, 'x, 'g, 'w, 'j) dvmethod" where
  "holding self graph v2n = self\<lparr>dm_graph := Some graph, dm_var_to_name := v2n\<rparr>"

text \<open>
  \<^verbatim>\<open>DvMethod.process\<close>: the result is the exception that ended it (if any), the method
  afterwards, and the events in order.
\<close>

definition DvMethod_process ::
  "('b, 'x, 'g, 'd, 'w, 'j) passes \<Rightarrow> bool \<Rightarrow> ('b, 'x, 'g, 'w, 'j) dvmethod
     \<Rightarrow> exn option \<times> ('b, 'x, 'g, 'w, 'j) dvmethod \<times> 'g event list" where
  "DvMethod_process P doAST self =
     (case dm_start_block self of
        None \<Rightarrow> emit P doAST None self
      | Some start_block \<Rightarrow>
          call Ev_construct (construct P start_block (dm_var_to_name self) (dm_exceptions self)) self
            (\<lambda>(graph, v2n).
          call Ev_build_def_use (build_def_use P graph (dm_lparams self)) (holding self graph v2n)
            (\<lambda>(graph, use_defs, def_uses).
          call Ev_split_variables (split_variables P graph v2n def_uses use_defs) (holding self graph v2n)
            (\<lambda>(graph, v2n, def_uses, use_defs).
          call Ev_dead_code_elimination (dead_code_elimination P graph def_uses use_defs) (holding self graph v2n)
            (\<lambda>(graph, def_uses, use_defs).
          call Ev_register_propagation (register_propagation P graph def_uses use_defs) (holding self graph v2n)
            (\<lambda>(graph, def_uses, use_defs).
          call Ev_resolve_variables_type (resolve_variables_type P graph v2n def_uses use_defs) (holding self graph v2n)
            (\<lambda>(graph, v2n, def_uses, use_defs).
          call Ev_new_instance_propgation (new_instance_propgation P graph def_uses use_defs) (holding self graph v2n)
            (\<lambda>(graph, def_uses, use_defs).
          call Ev_register_tmp_variables (Inr (register_tmp_variables def_uses v2n)) (holding self graph v2n)
            (\<lambda>v2n.
          call Ev_place_declarations (place_declarations P graph v2n def_uses use_defs) (holding self graph v2n)
            (\<lambda>(graph, v2n, def_uses, use_defs).
          call Ev_split_if_nodes (split_if_nodes P graph) (holding self graph v2n)
            (\<lambda>graph.
          call Ev_simplify (simplify P graph) (holding self graph v2n)
            (\<lambda>graph.
          call Ev_compute_rpo (compute_rpo P graph) (holding self graph v2n)
            (\<lambda>graph.
          call Ev_immediate_dominators (immediate_dominators P graph) (holding self graph v2n)
            (\<lambda>idom.
          call Ev_identify_structures (identify_structures P graph idom) (holding self graph v2n)
            (\<lambda>graph.
          emit P doAST (Some graph) (holding self graph v2n))))))))))))))))"

text \<open>
  \<^verbatim>\<open>DvMethod.get_ast\<close>, \<^verbatim>\<open>get_source\<close> and \<^verbatim>\<open>get_source_ext\<close>. A writer object counts as
  true in \<^verbatim>\<open>if self.writer\<close>, so the test is whether there is one.
\<close>

definition DvMethod_get_ast :: "('b, 'x, 'g, 'w, 'j) dvmethod \<Rightarrow> (string \<times> 'j) list option" where
  "DvMethod_get_ast self = dm_ast self"

definition DvMethod_get_source ::
  "('b, 'x, 'g, 'd, 'w, 'j) passes \<Rightarrow> ('b, 'x, 'g, 'w, 'j) dvmethod \<Rightarrow> string" where
  "DvMethod_get_source P self = (case dm_writer self of Some w \<Rightarrow> writer_str P w | None \<Rightarrow> [])"

definition DvMethod_get_source_ext ::
  "('b, 'x, 'g, 'd, 'w, 'j) passes \<Rightarrow> ('b, 'x, 'g, 'w, 'j) dvmethod \<Rightarrow> ext_token list" where
  "DvMethod_get_source_ext P self = (case dm_writer self of Some w \<Rightarrow> writer_str_ext P w | None \<Rightarrow> [])"

section \<open>Classes\<close>

text \<open>A class definition item of the frontend, by the getters \<^verbatim>\<open>DvClass.__init__\<close> calls.\<close>

record classdef =
  cd_name :: string
  cd_methods :: "encoded_method list"
  cd_fields :: "field list"
  cd_access_flags :: int
  cd_interfaces :: "string list"
  cd_superclassname :: "string option"
  cd_annotations_directory_item :: "adi_item option"

text \<open>
  An entry of \<^verbatim>\<open>DvClass.methods\<close>: an encoded method of the frontend until it is processed,
  a \<^verbatim>\<open>DvMethod\<close> afterwards (\<^verbatim>\<open>isinstance(method, DvMethod)\<close> tells them apart).
\<close>

datatype ('b, 'x, 'g, 'w, 'j) method_slot =
    Encoded encoded_method
  | Decompiled "('b, 'x, 'g, 'w, 'j) dvmethod"

record ('b, 'x, 'g, 'w, 'j) dvclass =
  dc_package :: string
  dc_name :: string
  dc_methods :: "('b, 'x, 'g, 'w, 'j) method_slot list"
  dc_fields :: "field list"
  dc_inner :: bool
  dc_access :: "string list"
  dc_prototype :: string
  dc_interfaces :: "string list"
  dc_superclass :: "string option"
  dc_thisclass :: string
  dc_adi :: "adi_item option"
  dc_class_annotations :: "annotation list"
  dc_field_annotations :: "int \<Rightarrow> annotation list option"

text \<open>The dictionary comprehension that collects the annotations of the fields of the class.\<close>

fun collect_field_annotations ::
  "('b, 'x) frontend \<Rightarrow> int list \<Rightarrow> (int \<times> int) list \<Rightarrow> (int \<Rightarrow> annotation list option)
     \<Rightarrow> (int \<Rightarrow> annotation list option)" where
  "collect_field_annotations fe idxes [] d = d"
| "collect_field_annotations fe idxes ((idx, off) # rest) d =
     collect_field_annotations fe idxes rest
       (if idx \<in> set idxes then d(idx \<mapsto> get_annotations fe [off]) else d)"

text \<open>\<^verbatim>\<open>DvClass.__init__\<close> (the debug logging left out).\<close>

definition DvClass_init ::
  "util \<Rightarrow> ('b, 'x) frontend \<Rightarrow> classdef \<Rightarrow> ('b, 'x, 'g, 'w, 'j) dvclass" where
  "DvClass_init u fe dvclass =
     (let name0 = cd_name dvclass;
          (pckg, name) = (if py_find (CHR ''/'') name0 > 0
                          then (before_last (CHR ''/'') name0, after_last (CHR ''/'') name0)
                          else ([], name0));
          sname = butlast name;
          access0 = cd_access_flags dvclass;
          interface = (and 0x200 access0 \<noteq> 0);
          access = (if interface \<and> and access0 0x400 \<noteq> 0 then access0 - 0x400 else access0);
          acc = get_access_class u access;
          adi = cd_annotations_directory_item dvclass
      in \<lparr> dc_package = replace_char (CHR ''/'') (CHR ''.'') (tl pckg),
           dc_name = sname,
           dc_methods = map Encoded (cd_methods dvclass),
           dc_fields = cd_fields dvclass,
           dc_inner = False,
           dc_access = acc,
           dc_prototype = (if interface then join '' '' acc @ '' '' @ sname
                           else join '' '' acc @ '' class '' @ sname),
           dc_interfaces = cd_interfaces dvclass,
           dc_superclass = cd_superclassname dvclass,
           dc_thisclass = cd_name dvclass,
           dc_adi = adi,
           dc_class_annotations =
             (case adi of None \<Rightarrow> [] | Some a \<Rightarrow> get_annotations fe [class_annotations_off a]),
           dc_field_annotations =
             (case adi of
                None \<Rightarrow> Map.empty
              | Some a \<Rightarrow> collect_field_annotations fe (map f_field_idx (cd_fields dvclass))
                           (field_annotations a) Map.empty) \<rparr>)"






subsection \<open>The AST of a class\<close>

text \<open>The dictionary \<^verbatim>\<open>get_field_ast\<close> returns, by its five keys.\<close>

record field_ast =
  fa_triple :: "string \<times> string \<times> string"
  fa_type :: type_ast
  fa_flags :: "string list"
  fa_annotations :: "annotation list"
  fa_expr :: "expr option"

definition get_field_ast :: "util \<Rightarrow> field \<Rightarrow> annotation list \<Rightarrow> exn + field_ast" where
  "get_field_ast u fld annotations =
     (let triple = (butlast (tl (f_class_name fld)), f_name fld, f_descriptor fld)
      in case field_expr fld of
           Inl e \<Rightarrow> Inl e
         | Inr expr \<Rightarrow>
             Inr \<lparr> fa_triple = triple,
                   fa_type = parse_descriptor (Some (f_descriptor fld)),
                   fa_flags = get_access_field u (f_access_flags fld),
                   fa_annotations = annotations,
                   fa_expr = expr \<rparr>)"

text \<open>A list comprehension or loop whose body may raise: the first exception ends it.\<close>

fun collect :: "('a \<Rightarrow> exn + 'b) \<Rightarrow> 'a list \<Rightarrow> exn + 'b list" where
  "collect f [] = Inr []"
| "collect f (x # xs) =
     (case f x of
        Inl e \<Rightarrow> Inl e
      | Inr y \<Rightarrow> (case collect f xs of Inl e \<Rightarrow> Inl e | Inr ys \<Rightarrow> Inr (y # ys)))"

text \<open>
  The loop of \<^verbatim>\<open>DvClass.get_ast\<close> over the methods: \<^verbatim>\<open>isinstance(m, DvMethod) and m.ast\<close>,
  where a dictionary counts as true when it is not empty.
\<close>

fun ast_methods :: "('b, 'x, 'g, 'w, 'j) method_slot list \<Rightarrow> (string \<times> 'j) list list" where
  "ast_methods [] = []"
| "ast_methods (Encoded m # ms) = ast_methods ms"
| "ast_methods (Decompiled dm # ms) =
     (case dm_ast dm of
        None \<Rightarrow> ast_methods ms
      | Some ast \<Rightarrow> if ast \<noteq> [] then ast # ast_methods ms else ast_methods ms)"

text \<open>The values of the dictionary \<^verbatim>\<open>DvClass.get_ast\<close> returns.\<close>

datatype 'j ast_value =
    AStr string
  | ABool bool
  | AFlags "string list"
  | AType type_ast
  | ATypes "type_ast list"
  | AAnnotations "annotation list"
  | AFields "field_ast list"
  | AMethods "(string \<times> 'j) list list"

text \<open>\<^verbatim>\<open>DvClass.get_ast\<close>: the fields first, then the methods, then the dictionary.\<close>

definition DvClass_get_ast ::
  "util \<Rightarrow> ('b, 'x, 'g, 'w, 'j) dvclass \<Rightarrow> exn + (string \<times> 'j ast_value) list" where
  "DvClass_get_ast u self =
     (case collect (\<lambda>f. get_field_ast u f
                      (case dc_field_annotations self (f_field_idx f) of None \<Rightarrow> [] | Some a \<Rightarrow> a))
             (dc_fields self) of
        Inl e \<Rightarrow> Inl e
      | Inr field_list \<Rightarrow>
          (let methods = ast_methods (dc_methods self);
               isInterface = (''interface'' \<in> set (dc_access self))
           in Inr [ (''rawname'', AStr (butlast (tl (dc_thisclass self)))),
                    (''name'', AType (parse_descriptor (Some (dc_thisclass self)))),
                    (''super'', AType (parse_descriptor (dc_superclass self))),
                    (''flags'', AFlags (dc_access self)),
                    (''isInterface'', ABool isInterface),
                    (''interfaces'', ATypes (map (\<lambda>i. parse_descriptor (Some i)) (dc_interfaces self))),
                    (''annotations'', AAnnotations (dc_class_annotations self)),
                    (''fields'', AFields field_list),
                    (''methods'', AMethods methods) ]))"

subsection \<open>The source of a class\<close>

text \<open>\<^verbatim>\<open>n[1:-1].replace('/', '.')\<close>, the dotted name of a class descriptor.\<close>

definition dotted :: "string \<Rightarrow> string" where
  "dotted n = replace_char (CHR ''/'') (CHR ''.'') (butlast (tl n))"

text \<open>The loops over \<^verbatim>\<open>self.methods\<close> at the end of \<^verbatim>\<open>get_source\<close> and \<^verbatim>\<open>get_source_ext\<close>.\<close>

fun source_methods ::
  "('b, 'x, 'g, 'd, 'w, 'j) passes \<Rightarrow> ('b, 'x, 'g, 'w, 'j) method_slot list \<Rightarrow> string list" where
  "source_methods P [] = []"
| "source_methods P (Encoded m # ms) = source_methods P ms"
| "source_methods P (Decompiled dm # ms) = DvMethod_get_source P dm # source_methods P ms"

fun ext_methods ::
  "('b, 'x, 'g, 'd, 'w, 'j) passes \<Rightarrow> ('b, 'x, 'g, 'w, 'j) method_slot list
     \<Rightarrow> (string \<times> ext_token list) list" where
  "ext_methods P [] = []"
| "ext_methods P (Encoded m # ms) = ext_methods P ms"
| "ext_methods P (Decompiled dm # ms) = (''METHOD'', DvMethod_get_source_ext P dm) # ext_methods P ms"

text \<open>\<^verbatim>\<open>DvClass.get_source\<close>: the list \<^verbatim>\<open>source\<close>, joined at the end.\<close>

definition DvClass_get_source ::
  "util \<Rightarrow> ('b, 'x, 'g, 'd, 'w, 'j) passes \<Rightarrow> ('b, 'x, 'g, 'w, 'j) dvclass \<Rightarrow> exn + string" where
  "DvClass_get_source u P self =
     (let package = (if \<not> dc_inner self \<and> dc_package self \<noteq> []
                     then [''package '' @ dc_package self @ '';'' @ [CHR 0x0A]] else []);
          extends = (case dc_superclass self of
                       None \<Rightarrow> []
                     | Some superclass \<Rightarrow>
                         if superclass \<noteq> ''Ljava/lang/Object;''
                         then '' extends '' @ dotted superclass else []);
          implements = (if length (dc_interfaces self) > 0
                        then '' implements '' @ join '', '' (map dotted (dc_interfaces self)) else []);
          prototype = dc_prototype self @ extends @ implements
      in case collect (source_field u) (dc_fields self) of
           Inl e \<Rightarrow> Inl e
         | Inr field_list \<Rightarrow>
             Inr (concat (package @ [prototype @ '' {'' @ [CHR 0x0A]] @ concat field_list
                          @ source_methods P (dc_methods self) @ [''}'' @ [CHR 0x0A]])))"

text \<open>The tokens of the interfaces in \<^verbatim>\<open>get_source_ext\<close>, a comma before all but the first.\<close>

fun ext_interfaces :: "bool \<Rightarrow> string list \<Rightarrow> ext_token list" where
  "ext_interfaces first [] = []"
| "ext_interfaces first (interface # rest) =
     (if first then [] else [Tok ''COMMA'' '', ''])
     @ [Tok ''NAME_INTERFACE'' (dotted interface)] @ ext_interfaces False rest"

text \<open>\<^verbatim>\<open>DvClass.get_source_ext\<close>.\<close>

definition DvClass_get_source_ext ::
  "util \<Rightarrow> ('b, 'x, 'g, 'd, 'w, 'j) passes \<Rightarrow> ('b, 'x, 'g, 'w, 'j) dvclass
     \<Rightarrow> exn + (string \<times> ext_token list) list" where
  "DvClass_get_source_ext u P self =
     (let package = (if \<not> dc_inner self \<and> dc_package self \<noteq> []
                     then [(''PACKAGE'', [Tok ''PACKAGE_START'' ''package '',
                                          Tok ''NAME_PACKAGE'' (dc_package self),
                                          Tok ''PACKAGE_END'' ('';'' @ [CHR 0x0A])])]
                     else []);
          list_proto = [Tok ''PROTOTYPE_ACCESS'' (join '' '' (dc_access self) @ '' class ''),
                        TokPkg ''NAME_PROTOTYPE'' (dc_name self) (dc_package self)];
          extends = (case dc_superclass self of
                       None \<Rightarrow> []
                     | Some superclass \<Rightarrow>
                         if superclass \<noteq> ''Ljava/lang/Object;''
                         then [Tok ''EXTEND'' '' extends '', Tok ''NAME_SUPERCLASS'' (dotted superclass)]
                         else []);
          implements = (if length (dc_interfaces self) > 0
                        then Tok ''IMPLEMENTS'' '' implements '' # ext_interfaces True (dc_interfaces self)
                        else []);
          proto_end = [Tok ''PROTOTYPE_END'' ('' {'' @ [CHR 0x0A])]
      in case collect (ext_field u) (dc_fields self) of
           Inl e \<Rightarrow> Inl e
         | Inr field_list \<Rightarrow>
             Inr (package @ [(''PROTOTYPE'', list_proto @ extends @ implements @ proto_end)]
                  @ field_list @ ext_methods P (dc_methods self)
                  @ [(''CLASS_END'', [Tok ''CLASS_END'' (''}'' @ [CHR 0x0A])])]))"

section \<open>The machine\<close>

text \<open>
  A value of \<^verbatim>\<open>DvMachine.classes\<close>: a class definition of the frontend until it is asked for,
  a \<^verbatim>\<open>DvClass\<close> afterwards. The dictionary is the list of its items in order; its keys are
  distinct.
\<close>

datatype ('b, 'x, 'g, 'w, 'j) class_slot =
    ClassDef classdef
  | Class "('b, 'x, 'g, 'w, 'j) dvclass"

text \<open>\<^verbatim>\<open>DvMachine.get_classes\<close>.\<close>

definition get_classes :: "(string \<times> ('b, 'x, 'g, 'w, 'j) class_slot) list \<Rightarrow> string list" where
  "get_classes classes = map fst classes"

text \<open>
  \<^verbatim>\<open>DvMachine.get_class\<close>: the loop over the items; the result is what is returned
  (\<open>None\<close> when the loop ends without a hit) and the dictionary afterwards.
\<close>

fun get_class ::
  "util \<Rightarrow> ('b, 'x) frontend \<Rightarrow> string \<Rightarrow> (string \<times> ('b, 'x, 'g, 'w, 'j) class_slot) list
     \<Rightarrow> ('b, 'x, 'g, 'w, 'j) dvclass option \<times> (string \<times> ('b, 'x, 'g, 'w, 'j) class_slot) list" where
  "get_class u fe class_name [] = (None, [])"
| "get_class u fe class_name ((name, klass) # rest) =
     (if py_in class_name name then
        (case klass of
           Class c \<Rightarrow> (Some c, (name, klass) # rest)
         | ClassDef d \<Rightarrow>
             (let dvclass = DvClass_init u fe d in (Some dvclass, (name, Class dvclass) # rest)))
      else (case get_class u fe class_name rest of (r, rest') \<Rightarrow> (r, (name, klass) # rest')))"

section \<open>Inputs of the examples\<close>

text \<open>An instance of the helpers of util.py, on the few descriptors and flags the examples use.\<close>

definition demo_util :: util where
  "demo_util =
     \<lparr> get_access_field = (\<lambda>flags. (if and flags 1 \<noteq> 0 then [''public''] else [])),
       get_access_method = (\<lambda>flags. (if and flags 1 \<noteq> 0 then [''public''] else [])
                                     @ (if and flags 8 \<noteq> 0 then [''static''] else [])),
       get_access_class = (\<lambda>flags. (if and flags 1 \<noteq> 0 then [''public''] else [])),
       get_type = (\<lambda>d. if d = ''Ljava/lang/String;'' then ''String''
                        else if d = ''B'' then ''byte'' else if d = ''Z'' then ''boolean'' else d),
       get_type_size = (\<lambda>t. if t = ''J'' \<or> t = ''D'' then 2 else 1),
       get_params_type = (\<lambda>desc. if desc = ''(IJ)V'' then [''I'', ''J''] else []),
       ACCESS_FLAGS_FIELDS = [(1, ''public''), (2, ''private''), (8, ''static'')] \<rparr>"

text \<open>A byte field whose stored value is \<^verbatim>\<open>0xFE\<close>.\<close>

definition byte_field :: field where
  "byte_field =
     \<lparr> f_class_name = ''LFoo;'', f_name = ''b'', f_descriptor = ''B'', proto = ''B'',
       f_access_flags = 0, f_field_idx = 0, init_value = Some (PyInt 254) \<rparr>"

section \<open>The order of the pipeline, as specified\<close>

text \<open>
  The order of the passes as the specification gives it (section 4.6, steps 2 to 7), and the
  events that are passes of that pipeline.
\<close>

definition pipeline_order :: "'g event list" where
  "pipeline_order =
     [Ev_construct, Ev_build_def_use, Ev_split_variables, Ev_dead_code_elimination,
      Ev_register_propagation, Ev_resolve_variables_type, Ev_new_instance_propgation,
      Ev_register_tmp_variables, Ev_place_declarations, Ev_split_if_nodes, Ev_simplify,
      Ev_compute_rpo, Ev_identify_structures]"

definition pipeline_pass :: "'g event \<Rightarrow> bool" where
  "pipeline_pass ev = (ev \<in> set pipeline_order)"

text \<open>\<open>never_before a b tr\<close>: in the trace \<open>tr\<close>, \<open>b\<close> does not occur unless \<open>a\<close> has occurred earlier.\<close>

fun never_before :: "'g event \<Rightarrow> 'g event \<Rightarrow> 'g event list \<Rightarrow> bool" where
  "never_before a b [] = True"
| "never_before a b (ev # evs) = (if ev = a then True else if ev = b then False else never_before a b evs)"

text \<open>
  A result of \<^verbatim>\<open>process\<close> whose passes are an initial segment of the list \<open>L\<close>, and all of
  \<open>L\<close> if no exception ended it.
\<close>

definition in_order :: "'g event list \<Rightarrow> exn option \<times> 's \<times> 'g event list \<Rightarrow> bool" where
  "in_order L res =
     (case res of (x, s, tr) \<Rightarrow>
        prefix (filter pipeline_pass tr) L \<and> (x = None \<longrightarrow> filter pipeline_pass tr = L))"

text \<open>
  The pipeline of section 4.6 of the specification as a list of steps. A step works on the
  graph, the naming environment and the two def/use maps, and gives the new state or the
  exception together with the events of its calls.
\<close>

record 'g pstate =
  ps_graph :: 'g
  ps_var_to_name :: env
  ps_def_uses :: defuse
  ps_use_defs :: defuse

type_synonym 'g pstep = "'g pstate \<Rightarrow> (exn + 'g pstate) \<times> 'g event list"

text \<open>A step that is one call.\<close>

definition pass_step :: "'g event \<Rightarrow> ('g pstate \<Rightarrow> exn + 'g pstate) \<Rightarrow> 'g pstep" where
  "pass_step ev f s = (f s, [ev])"

text \<open>
  The arguments a pass is called with: the graph alone, the graph with the two maps, or the
  graph with the environment and the two maps.
\<close>

definition on_graph :: "('g \<Rightarrow> exn + 'g) \<Rightarrow> 'g pstate \<Rightarrow> exn + 'g pstate" where
  "on_graph f s = (case f (ps_graph s) of Inl e \<Rightarrow> Inl e | Inr g \<Rightarrow> Inr (s\<lparr>ps_graph := g\<rparr>))"

definition on_graph_maps ::
  "('g \<Rightarrow> defuse \<Rightarrow> defuse \<Rightarrow> exn + 'g \<times> defuse \<times> defuse) \<Rightarrow> 'g pstate \<Rightarrow> exn + 'g pstate" where
  "on_graph_maps f s =
     (case f (ps_graph s) (ps_def_uses s) (ps_use_defs s) of
        Inl e \<Rightarrow> Inl e
      | Inr (g, du, ud) \<Rightarrow> Inr (s\<lparr>ps_graph := g, ps_def_uses := du, ps_use_defs := ud\<rparr>))"

definition on_all ::
  "('g \<Rightarrow> env \<Rightarrow> defuse \<Rightarrow> defuse \<Rightarrow> exn + 'g \<times> env \<times> defuse \<times> defuse) \<Rightarrow> 'g pstate \<Rightarrow> exn + 'g pstate" where
  "on_all f s =
     (case f (ps_graph s) (ps_var_to_name s) (ps_def_uses s) (ps_use_defs s) of
        Inl e \<Rightarrow> Inl e
      | Inr (g, v, du, ud) \<Rightarrow>
          Inr \<lparr>ps_graph = g, ps_var_to_name = v, ps_def_uses = du, ps_use_defs = ud\<rparr>)"

text \<open>Step 7: \<^verbatim>\<open>identify_structures(graph, immediate_dominators())\<close>.\<close>

definition structure_step :: "('b, 'x, 'g, 'd, 'w, 'j) passes \<Rightarrow> 'g pstep" where
  "structure_step P s =
     (case immediate_dominators P (ps_graph s) of
        Inl e \<Rightarrow> (Inl e, [Ev_immediate_dominators])
      | Inr idom \<Rightarrow>
          (on_graph (\<lambda>g. identify_structures P g idom) s,
           [Ev_immediate_dominators, Ev_identify_structures]))"

text \<open>
  Running the steps in the order of the list: the first exception ends the run, with the
  state the failing step was given.
\<close>

fun run_steps :: "'g pstep list \<Rightarrow> 'g pstate \<Rightarrow> exn option \<times> 'g pstate \<times> 'g event list" where
  "run_steps [] s = (None, s, [])"
| "run_steps (step # steps) s =
     (case step s of
        (Inl e, evs) \<Rightarrow> (Some e, s, evs)
      | (Inr s', evs) \<Rightarrow> (case run_steps steps s' of (x, s'', tr) \<Rightarrow> (x, s'', evs @ tr)))"

text \<open>Steps 3 to 7, in the order of the specification.\<close>

definition specified_pipeline :: "('b, 'x, 'g, 'd, 'w, 'j) passes \<Rightarrow> int list \<Rightarrow> 'g pstep list" where
  "specified_pipeline P lparams =
     [pass_step Ev_build_def_use
        (\<lambda>s. case build_def_use P (ps_graph s) lparams of
                Inl e \<Rightarrow> Inl e
              | Inr (g, ud, du) \<Rightarrow> Inr (s\<lparr>ps_graph := g, ps_def_uses := du, ps_use_defs := ud\<rparr>)),
      pass_step Ev_split_variables (on_all (split_variables P)),
      pass_step Ev_dead_code_elimination (on_graph_maps (dead_code_elimination P)),
      pass_step Ev_register_propagation (on_graph_maps (register_propagation P)),
      pass_step Ev_resolve_variables_type (on_all (resolve_variables_type P)),
      pass_step Ev_new_instance_propgation (on_graph_maps (new_instance_propgation P)),
      pass_step Ev_register_tmp_variables
        (\<lambda>s. Inr (s\<lparr>ps_var_to_name := register_tmp_variables (ps_def_uses s) (ps_var_to_name s)\<rparr>)),
      pass_step Ev_place_declarations (on_all (place_declarations P)),
      pass_step Ev_split_if_nodes (on_graph (split_if_nodes P)),
      pass_step Ev_simplify (on_graph (simplify P)),
      pass_step Ev_compute_rpo (on_graph (compute_rpo P)),
      structure_step P]"

text \<open>
  The whole of steps 2 to 8 for a method with the start block \<open>b\<close>: the CFG, the steps, and the
  hand-over to the writer; the method holds the graph and the environment the run ended with.
\<close>

definition specified_process ::
  "('b, 'x, 'g, 'd, 'w, 'j) passes \<Rightarrow> bool \<Rightarrow> 'b \<Rightarrow> ('b, 'x, 'g, 'w, 'j) dvmethod
     \<Rightarrow> exn option \<times> ('b, 'x, 'g, 'w, 'j) dvmethod \<times> 'g event list" where
  "specified_process P doAST b self =
     (case construct P b (dm_var_to_name self) (dm_exceptions self) of
        Inl e \<Rightarrow> (Some e, self, [Ev_construct])
      | Inr (g, v) \<Rightarrow>
          (case run_steps (specified_pipeline P (dm_lparams self))
                  \<lparr>ps_graph = g, ps_var_to_name = v, ps_def_uses = [], ps_use_defs = []\<rparr> of
             (Some e, s, tr) \<Rightarrow>
               (Some e, holding self (ps_graph s) (ps_var_to_name s), Ev_construct # tr)
           | (None, s, tr) \<Rightarrow>
               (case emit P doAST (Some (ps_graph s)) (holding self (ps_graph s) (ps_var_to_name s)) of
                  (x, self', tr') \<Rightarrow> (x, self', Ev_construct # tr @ tr'))))"

text \<open>
  The registers of the explicit parameters as the specification describes them: the first at
  \<open>r\<close>, each next one further by the size of the type of the one before.
\<close>

fun param_registers :: "util \<Rightarrow> int \<Rightarrow> string list \<Rightarrow> int list" where
  "param_registers u r [] = []"
| "param_registers u r (t # ts) = r # param_registers u (r + get_type_size u t) ts"



text \<open>The class an item of the machine stands for: itself, or the \<^verbatim>\<open>DvClass\<close> built from it.\<close>

definition as_dvclass ::
  "util \<Rightarrow> ('b, 'x) frontend \<Rightarrow> ('b, 'x, 'g, 'w, 'j) class_slot \<Rightarrow> ('b, 'x, 'g, 'w, 'j) dvclass" where
  "as_dvclass u fe klass = (case klass of Class c \<Rightarrow> c | ClassDef d \<Rightarrow> DvClass_init u fe d)"

text \<open>The ASTs of the entries that are a \<^verbatim>\<open>DvMethod\<close> whose \<^verbatim>\<open>ast\<close> is not \<^verbatim>\<open>None\<close>.\<close>

definition methods_with_ast :: "('b, 'x, 'g, 'w, 'j) method_slot list \<Rightarrow> (string \<times> 'j) list list" where
  "methods_with_ast ms =
     List.map_filter (\<lambda>slot. case slot of Encoded m \<Rightarrow> None | Decompiled dm \<Rightarrow> dm_ast dm) ms"

section \<open>Further inputs of the examples\<close>

text \<open>
  Passes that all succeed, and the same with a failing \<^verbatim>\<open>simplify\<close>; graphs, writers and AST
  values are strings. A method with code and a native one, and a frontend for them.
\<close>

definition demo_passes :: "(nat, unit, string, unit, string, string) passes" where
  "demo_passes =
     \<lparr> construct = (\<lambda>b v2n x. Inr (''cfg'', v2n)),
       build_def_use = (\<lambda>g lp. Inr (g, [], [((TmpVar ''tmp0'', 0), [1])])),
       split_variables = (\<lambda>g v du ud. Inr (g, v, du, ud)),
       dead_code_elimination = (\<lambda>g du ud. Inr (g, du, ud)),
       register_propagation = (\<lambda>g du ud. Inr (g, du, ud)),
       resolve_variables_type = (\<lambda>g v du ud. Inr (g, v, du, ud)),
       new_instance_propgation = (\<lambda>g du ud. Inr (g, du, ud)),
       place_declarations = (\<lambda>g v du ud. Inr (g, v, du, ud)),
       split_if_nodes = (\<lambda>g. Inr g),
       simplify = (\<lambda>g. Inr g),
       compute_rpo = (\<lambda>g. Inr g),
       immediate_dominators = (\<lambda>g. Inr ()),
       identify_structures = (\<lambda>g d. Inr (g @ '' structured'')),
       Writer = (\<lambda>g m. Inr (dm_name m)),
       write_method = (\<lambda>w. Inr (w @ ''() {}'')),
       writer_str = (\<lambda>w. w),
       writer_str_ext = (\<lambda>w. [Tok ''METHOD'' w]),
       JSONWriter_get_ast = (\<lambda>g m. Inr [(''body'', (case g of None \<Rightarrow> ''[]'' | Some t \<Rightarrow> t))]) \<rparr>"

definition failing_passes :: "(nat, unit, string, unit, string, string) passes" where
  "failing_passes = demo_passes\<lparr> simplify := (\<lambda>g. Inl (Raised ''boom'')) \<rparr>"

definition demo_method :: encoded_method where
  "demo_method =
     \<lparr> m_class_name = ''LFoo;'', m_name = ''bar'', m_access_flags = 1, m_descriptor = ''(IJ)V'',
       m_triple = (''Foo'', ''bar'', ''(IJ)V''),
       m_code = Some \<lparr> registers_size = 6, ins_size = 4 \<rparr>, m_method_idx = 0 \<rparr>"

definition native_method :: encoded_method where
  "native_method = demo_method\<lparr> m_name := ''nat'', m_code := None, m_method_idx := 1 \<rparr>"

definition demo_frontend :: "(nat, unit) frontend" where
  "demo_frontend =
     \<lparr> get_method = (\<lambda>m. Inr \<lparr> ma_method = m,
                                ma_basic_blocks = (if m_code m = None then [] else [0]),
                                ma_exceptions = () \<rparr>),
       get_annotations = (\<lambda>offs. []),
       get_parameter_annotations = (\<lambda>items. map (\<lambda>i. []) items) \<rparr>"

definition demo_analysis :: "(nat, unit) methanalysis" where
  "demo_analysis = \<lparr> ma_method = demo_method, ma_basic_blocks = [0], ma_exceptions = () \<rparr>"

definition demo_dvmethod :: "(nat, unit, string, string, string) dvmethod" where
  "demo_dvmethod = DvMethod_init demo_util demo_frontend demo_analysis None"

definition native_dvmethod :: "(nat, unit, string, string, string) dvmethod" where
  "native_dvmethod =
     DvMethod_init demo_util demo_frontend
       \<lparr> ma_method = native_method, ma_basic_blocks = [], ma_exceptions = () \<rparr> None"

text \<open>
  Passes that write their name at the end of the graph, which is the list of the names so
  far, and a method with code for them.
\<close>

definition marking_passes :: "(nat, unit, string list, unit, string, string) passes" where
  "marking_passes =
     \<lparr> construct = (\<lambda>b v2n x. Inr ([''construct''], v2n)),
       build_def_use = (\<lambda>g lp. Inr (g @ [''build_def_use''], [], [((TmpVar ''tmp0'', 0), [1])])),
       split_variables = (\<lambda>g v du ud. Inr (g @ [''split_variables''], v, du, ud)),
       dead_code_elimination = (\<lambda>g du ud. Inr (g @ [''dead_code_elimination''], du, ud)),
       register_propagation = (\<lambda>g du ud. Inr (g @ [''register_propagation''], du, ud)),
       resolve_variables_type = (\<lambda>g v du ud. Inr (g @ [''resolve_variables_type''], v, du, ud)),
       new_instance_propgation = (\<lambda>g du ud. Inr (g @ [''new_instance_propgation''], du, ud)),
       place_declarations =
         (\<lambda>g v du ud. Inr (g @ (if v (TmpVar ''tmp0'') = Some (UpperName ''TMP0'')
                                  then [''tmp0 registered''] else []) @ [''place_declarations''], v, du, ud)),
       split_if_nodes = (\<lambda>g. Inr (g @ [''split_if_nodes''])),
       simplify = (\<lambda>g. Inr (g @ [''simplify''])),
       compute_rpo = (\<lambda>g. Inr (g @ [''compute_rpo''])),
       immediate_dominators = (\<lambda>g. Inr ()),
       identify_structures = (\<lambda>g d. Inr (g @ [''identify_structures''])),
       Writer = (\<lambda>g m. Inr (dm_name m)),
       write_method = (\<lambda>w. Inr (w @ ''() {}'')),
       writer_str = (\<lambda>w. w),
       writer_str_ext = (\<lambda>w. [Tok ''METHOD'' w]),
       JSONWriter_get_ast = (\<lambda>g m. Inr [(''body'', ''[]'')]) \<rparr>"

definition marked_dvmethod :: "(nat, unit, string list, string, string) dvmethod" where
  "marked_dvmethod = DvMethod_init demo_util demo_frontend demo_analysis None"

text \<open>
  A boolean and a string field with a given stored value, an annotations directory with given
  parameter annotations, a class with two methods and two fields, and a machine with three
  classes, the last of them named exactly \<^verbatim>\<open>Foo\<close>.
\<close>

definition bool_field :: "pyval \<Rightarrow> field" where
  "bool_field v =
     \<lparr> f_class_name = ''LFoo;'', f_name = ''flag'', f_descriptor = ''Z'', proto = ''Z'',
       f_access_flags = 0, f_field_idx = 1, init_value = Some v \<rparr>"

definition string_field :: "pyval \<Rightarrow> field" where
  "string_field v =
     \<lparr> f_class_name = ''LFoo;'', f_name = ''s'', f_descriptor = ''Ljava/lang/String;'',
       proto = ''Ljava/lang/String;'', f_access_flags = 1, f_field_idx = 2, init_value = Some v \<rparr>"
definition demo_adi :: "(int \<times> int) list \<Rightarrow> adi_item" where
  "demo_adi params =
     \<lparr> class_annotations_off = 0, field_annotations = [], method_annotations = [],
       parameter_annotations = params \<rparr>"

definition demo_classdef :: classdef where
  "demo_classdef =
     \<lparr> cd_name = ''Lcom/example/Foo;'', cd_methods = [demo_method, native_method],
       cd_fields = [byte_field, string_field (PyStr '''')], cd_access_flags = 1,
       cd_interfaces = [], cd_superclassname = Some ''Ljava/lang/Object;'',
       cd_annotations_directory_item = None \<rparr>"

definition demo_class :: "(nat, unit, string, string, string) dvclass" where
  "demo_class = DvClass_init demo_util demo_frontend demo_classdef"

definition demo_classes :: "(string \<times> (nat, unit, string, string, string) class_slot) list" where
  "demo_classes =
     [(''Lcom/example/FooBar;'', ClassDef (demo_classdef\<lparr> cd_name := ''Lcom/example/FooBar;'' \<rparr>)),
      (''Lcom/example/Foo;'', ClassDef demo_classdef),
      (''Foo'', ClassDef (demo_classdef\<lparr> cd_name := ''Foo'' \<rparr>))]"


definition ast_class :: "(nat, unit, string, string, string) dvclass" where
  "ast_class =
     demo_class\<lparr> dc_methods :=
       [Encoded demo_method,
        Decompiled (native_dvmethod\<lparr> dm_ast := Some [(''body'', ''[]'')] \<rparr>),
        Decompiled demo_dvmethod] \<rparr>"

section \<open>Signed bytes\<close>

lemma byte_shift_mod: "0 \<le> (b::int) \<Longrightarrow> b \<le> 255 \<Longrightarrow> (b + 128) mod 256 - 128 = (if b < 128 then b else b - 256)"
proof (cases "b < 128")
  case True
  assume "0 \<le> b" "b \<le> 255"
  with True have "(b + 128) mod 256 = b + 128" by (simp add: mod_pos_pos_trivial)
  with True show ?thesis by simp
next
  case False
  assume "0 \<le> b" "b \<le> 255"
  have e: "b + 128 = (b - 128) + 256" by simp
  have "(b - 128 + 256) mod 256 = (b - 128) mod 256" by (simp only: mod_add_self2)
  also have "\<dots> = b - 128" using False \<open>b \<le> 255\<close> by (simp add: mod_pos_pos_trivial)
  finally have "(b + 128) mod 256 = b - 128" by (simp only: e)
  then show ?thesis using False by simp
qed


lemma sint_byte:
  "0 \<le> b \<Longrightarrow> b \<le> 255 \<Longrightarrow> sint (word_of_int b :: 8 word) = (if b < 128 then b else b - 256)"
proof -
  assume b: "0 \<le> b" "b \<le> 255"
  have "sint (word_of_int b :: 8 word) = (b + 128) mod 256 - 128"
    by (simp add: sint_sbintrunc' signed_take_bit_eq_take_bit_shift take_bit_eq_mod)
  also have "\<dots> = (if b < 128 then b else b - 256)" using b by (rule byte_shift_mod)
  finally show ?thesis .
qed

lemma signed_byte_int:
  "0 \<le> b \<Longrightarrow> b \<le> 255 \<Longrightarrow> signed_byte (PyInt b) = Inr (if b < 128 then b else b - 256)"
  by (simp add: signed_byte_def struct_pack_B_def struct_unpack_b_def sint_byte)

lemma digit_char_mem: "d < 16 \<Longrightarrow> digit_char d \<in> set ''0123456789abcdef''"
  unfolding digit_char_def by (rule nth_mem) simp

lemma digits_no_minus: "2 \<le> b \<Longrightarrow> b \<le> 16 \<Longrightarrow> CHR ''-'' \<notin> set (digits b n)"
proof (induction b n rule: digits.induct)
  case (1 b n)
  show ?case
  proof (cases "n < b")
    case True
    then have "n < 16" using "1.prems" by simp
    from digit_char_mem [OF this] have "digit_char n \<noteq> CHR ''-''" by auto
    with True show ?thesis by (subst digits.simps) simp
  next
    case False
    have "n mod b < b" using "1.prems" by simp
    then have "n mod b < 16" using "1.prems" by linarith
    from digit_char_mem [OF this] have d: "digit_char (n mod b) \<noteq> CHR ''-''" by auto
    have "CHR ''-'' \<notin> set (digits b (n div b))" using "1.IH" "1.prems" False by simp
    with d False "1.prems" show ?thesis by (subst digits.simps) simp
  qed
qed

lemma py_hex_neg_differs: "d < 0 \<Longrightarrow> 0 \<le> b \<Longrightarrow> py_hex d \<noteq> py_hex b \<and> py_hex d \<noteq> str_int b"
proof -
  assume d: "d < 0" and b: "0 \<le> b"
  have "CHR ''-'' \<notin> set (digits 10 (nat b))" by (rule digits_no_minus) simp_all
  moreover have "CHR ''-'' \<in> set (py_hex d)" using d by (simp add: py_hex_def)
  ultimately have "py_hex d \<noteq> str_int b" using b by (auto simp: str_int_def)
  moreover have "py_hex d \<noteq> py_hex b" using d b by (simp add: py_hex_def)
  ultimately show ?thesis by simp
qed

text \<open>The values the specification lists for the decoding of a byte.\<close>

lemma signed_byte_examples:
  "signed_byte (PyInt 0xFF) = Inr (- 1)" "signed_byte (PyInt 0x80) = Inr (- 128)"
  "signed_byte (PyInt 0x7F) = Inr 127" "signed_byte (PyInt 0xFE) = Inr (- 2)"
  by (simp_all add: signed_byte_int)

text \<open>
  C4. A byte field (proto and descriptor \<^verbatim>\<open>B\<close>, a type name other than \<^verbatim>\<open>String\<close>) whose stored
  value is an unsigned byte \<open>b\<close> in 0..255 is decoded to the signed byte \<open>d\<close> with the same bits:
  \<open>d = b\<close> below 128 and \<open>d = b - 256\<close> from 128 on, so \<open>d\<close> lies in -128..127 and is congruent
  to \<open>b\<close> modulo 256. The AST literal is \<^verbatim>\<open>literal_hex_int(d)\<close>, and both renderers of the
  source write \<^verbatim>\<open>hex(d)\<close>. From 128 on this is neither the raw value, nor its hexadecimal or
  decimal text.
\<close>

theorem byte_field_decoded_signed:
  assumes b: "0 \<le> b" "b \<le> 255"
    and iv: "init_value fld = Some (PyInt b)"
    and pr: "proto fld = ''B''" and de: "f_descriptor fld = ''B''"
    and ty: "get_type u ''B'' \<noteq> ''String''"
  shows "let d = (if b < 128 then b else b - 256) in
           signed_byte (PyInt b) = Inr d \<and> - 128 \<le> d \<and> d \<le> 127 \<and> (b - d) mod 256 = 0
         \<and> field_expr fld = Inr (Some (literal_hex_int d))
         \<and> source_value (get_type u (f_descriptor fld)) fld (PyInt b) = Inr (py_hex d)
         \<and> ext_value (get_type u (f_descriptor fld)) fld (PyInt b) = Inr ('' = '' @ py_hex d)
         \<and> (128 \<le> b \<longrightarrow> d \<noteq> b \<and> py_hex d \<noteq> py_hex b \<and> py_hex d \<noteq> str_int b)"
proof -
  define d where "d = (if b < 128 then b else b - 256)"
  have sb: "signed_byte (PyInt b) = Inr d" unfolding d_def using b by (rule signed_byte_int)
  have rng: "- 128 \<le> d \<and> d \<le> 127 \<and> (b - d) mod 256 = 0" using b by (simp add: d_def)
  have fe: "field_expr fld = Inr (Some (literal_hex_int d))"
    by (simp add: field_expr_def iv pr de sb prefix_def)
  have sv: "source_value (get_type u (f_descriptor fld)) fld (PyInt b) = Inr (py_hex d)"
    by (simp add: source_value_def de ty pr sb)
  have ev: "ext_value (get_type u (f_descriptor fld)) fld (PyInt b) = Inr ('' = '' @ py_hex d)"
    by (simp add: ext_value_def de ty pr sb)
  have raw: "128 \<le> b \<longrightarrow> d \<noteq> b \<and> py_hex d \<noteq> py_hex b \<and> py_hex d \<noteq> str_int b"
  proof
    assume h: "128 \<le> b"
    then have "d < 0" using b by (simp add: d_def)
    with py_hex_neg_differs [of d b] b show "d \<noteq> b \<and> py_hex d \<noteq> py_hex b \<and> py_hex d \<noteq> str_int b" by auto
  qed
  from sb rng fe sv ev raw show ?thesis unfolding d_def [symmetric] Let_def by blast
qed


theorem byte_field_decoded_signed_witness:
  "(0::int) \<le> 254 \<and> (254::int) \<le> 255 \<and> (128::int) \<le> 254
   \<and> field_expr byte_field = Inr (Some (literal_hex_int (- 2)))
   \<and> source_value ''byte'' byte_field (PyInt 254) = Inr ''-0x2''
   \<and> ext_value ''byte'' byte_field (PyInt 254) = Inr '' = -0x2''"
  using byte_field_decoded_signed [of 254 byte_field demo_util]
  by (simp add: byte_field_def demo_util_def Let_def py_hex_def digits.simps digit_char_def)

section \<open>The pipeline of a method\<close>

text \<open>
  C2. For a method without start block (a native or abstract method), \<^verbatim>\<open>process\<close> only
  emits: in AST mode it asks a JSON writer created with the graph \<^verbatim>\<open>None\<close> for the AST, in text
  mode it creates a writer with the graph \<^verbatim>\<open>None\<close> and lets it write the method. It then
  returns (or ends with the exception of the writer). No event of the CFG construction or of
  a dataflow pass occurs, and \<^verbatim>\<open>self.graph\<close> and \<^verbatim>\<open>self.var_to_name\<close> are what they were, so the
  graph of a method that had none is still \<^verbatim>\<open>None\<close>.
\<close>

theorem native_method_only_emits:
  assumes "dm_start_block self = None"
  shows "DvMethod_process P doAST self =
           (if doAST then
              (case JSONWriter_get_ast P None self of
                 Inl e \<Rightarrow> (Some e, self, [Ev_JSONWriter None])
               | Inr ast \<Rightarrow> (None, self\<lparr>dm_ast := Some ast\<rparr>, [Ev_JSONWriter None]))
            else
              (case Writer P None self of
                 Inl e \<Rightarrow> (Some e, self, [Ev_Writer None])
               | Inr w \<Rightarrow>
                   (case write_method P w of
                      Inl e \<Rightarrow> (Some e, self\<lparr>dm_writer := Some w\<rparr>, [Ev_Writer None, Ev_write_method])
                    | Inr w' \<Rightarrow> (None, self\<lparr>dm_writer := Some w'\<rparr>, [Ev_Writer None, Ev_write_method]))))
         \<and> dm_graph (fst (snd (DvMethod_process P doAST self))) = dm_graph self
         \<and> dm_var_to_name (fst (snd (DvMethod_process P doAST self))) = dm_var_to_name self
         \<and> set (snd (snd (DvMethod_process P doAST self)))
             \<subseteq> {Ev_Writer None, Ev_write_method, Ev_JSONWriter None}"
  using assms
  by (simp add: DvMethod_process_def emit_def call_def split: sum.splits)


lemma native_start: "dm_start_block native_dvmethod = None"
  by (simp add: native_dvmethod_def DvMethod_init_def Let_def split_beta)

theorem native_method_only_emits_witness:
  "dm_start_block native_dvmethod = None
   \<and> DvMethod_process demo_passes True native_dvmethod
       = (None, native_dvmethod\<lparr>dm_ast := Some [(''body'', ''[]'')]\<rparr>, [Ev_JSONWriter None])
   \<and> DvMethod_process demo_passes False native_dvmethod
       = (None, native_dvmethod\<lparr>dm_writer := Some ''nat() {}''\<rparr>, [Ev_Writer None, Ev_write_method])
   \<and> dm_graph (fst (snd (DvMethod_process demo_passes False native_dvmethod))) = None"
  using native_method_only_emits [OF native_start, of demo_passes True]
        native_method_only_emits [OF native_start, of demo_passes False]
  by (simp add: demo_passes_def) (simp add: native_dvmethod_def DvMethod_init_def Let_def split_beta native_method_def demo_method_def)

lemma in_order_call_pass:
  assumes "pipeline_pass ev" and "\<And>a. in_order L (rest a)"
  shows "in_order (ev # L) (call ev r s rest)"
proof (cases r)
  case (Inl e)
  then show ?thesis using assms(1) by (simp add: call_def in_order_def)
next
  case (Inr a)
  with assms(2) [of a] assms(1) show ?thesis
    by (cases "rest a") (simp add: call_def in_order_def)
qed

lemma in_order_call_other:
  assumes "\<not> pipeline_pass ev" and "L \<noteq> []" and "\<And>a. in_order L (rest a)"
  shows "in_order L (call ev r s rest)"
proof (cases r)
  case (Inl e)
  then show ?thesis using assms(1,2) by (simp add: call_def in_order_def)
next
  case (Inr a)
  with assms(3) [of a] assms(1) show ?thesis
    by (cases "rest a") (simp add: call_def in_order_def)
qed

lemma in_order_prod: "(\<And>a b. in_order L (f a b)) \<Longrightarrow> in_order L (case_prod f p)"
  by (cases p) simp

lemma in_order_emit: "in_order [] (emit P doAST g self)"
  by (simp add: emit_def call_def in_order_def pipeline_pass_def pipeline_order_def split: sum.splits)

lemma pass_events [simp]:
  "pipeline_pass Ev_construct" "pipeline_pass Ev_build_def_use" "pipeline_pass Ev_split_variables"
  "pipeline_pass Ev_dead_code_elimination" "pipeline_pass Ev_register_propagation"
  "pipeline_pass Ev_resolve_variables_type" "pipeline_pass Ev_new_instance_propgation"
  "pipeline_pass Ev_register_tmp_variables" "pipeline_pass Ev_place_declarations"
  "pipeline_pass Ev_split_if_nodes" "pipeline_pass Ev_simplify" "pipeline_pass Ev_compute_rpo"
  "pipeline_pass Ev_identify_structures" "\<not> pipeline_pass Ev_immediate_dominators"
  by (simp_all add: pipeline_pass_def pipeline_order_def)

lemma process_in_order:
  assumes "dm_start_block self = Some b"
  shows "in_order pipeline_order (DvMethod_process P doAST self)"
  unfolding DvMethod_process_def assms option.case pipeline_order_def
  by (intro in_order_call_pass in_order_call_other in_order_prod in_order_emit pass_events) simp

lemma never_before_filter:
  "pipeline_pass a \<Longrightarrow> pipeline_pass b \<Longrightarrow> never_before a b (filter pipeline_pass tr) = never_before a b tr"
  by (induction tr) auto

lemma prefix_order_cases:
  "prefix ys (pipeline_order :: 'g event list) \<Longrightarrow> ys \<in> set (prefixes pipeline_order)"
  by (simp add: in_set_prefixes)

lemma order_never_before:
  assumes "prefix ys (pipeline_order :: 'g event list)"
  shows "never_before Ev_simplify Ev_identify_structures ys
       \<and> never_before Ev_build_def_use Ev_register_propagation ys
       \<and> never_before Ev_build_def_use Ev_new_instance_propgation ys"
  using prefix_order_cases [OF assms] unfolding pipeline_order_def
  by (simp only: prefixes.simps prefixes_snoc list.simps append.simps set_simps insert_iff empty_iff) 
     (elim disjE; simp)

lemma process_refines:
  assumes "dm_start_block self = Some b"
  shows "DvMethod_process P doAST self = specified_process P doAST b self"
  unfolding DvMethod_process_def specified_process_def specified_pipeline_def assms option.case
  by (simp add: call_def pass_step_def on_graph_def on_graph_maps_def on_all_def structure_step_def
        split: sum.splits prod.splits)

text \<open>
  C1. For a method with a start block, \<^verbatim>\<open>process\<close> is the specified pipeline: it builds the
  CFG and then runs, each on the graph, the naming environment and the def/use maps the one
  before left, \<^verbatim>\<open>build_def_use\<close>, \<^verbatim>\<open>split_variables\<close>, \<^verbatim>\<open>dead_code_elimination\<close>,
  \<^verbatim>\<open>register_propagation\<close>, \<^verbatim>\<open>resolve_variables_type\<close>, \<^verbatim>\<open>new_instance_propgation\<close>, the
  registration of the generated variables, \<^verbatim>\<open>place_declarations\<close>, \<^verbatim>\<open>split_if_nodes\<close>,
  \<^verbatim>\<open>simplify\<close>, \<^verbatim>\<open>compute_rpo\<close> and, last, \<^verbatim>\<open>identify_structures\<close> on the immediate dominators;
  the first pass that raises ends it with the method holding the graph and the environment
  of that moment, and otherwise the structured graph goes to the writer. So the passes
  called are an initial segment of the specified order, all of it in a run that ends without
  exception; structuring never runs before simplification, and neither propagation pass
  before the def/use construction. If every pass returns, the method ends with the graph
  that \<^verbatim>\<open>identify_structures\<close> returned for the result of \<^verbatim>\<open>compute_rpo\<close>, and so on back to the
  graph that \<^verbatim>\<open>construct\<close> built from the start block.
\<close>

theorem pipeline_runs_in_fixed_order:
  assumes "dm_start_block self = Some b"
  shows "DvMethod_process P doAST self = specified_process P doAST b self
       \<and> (case DvMethod_process P doAST self of (x, self', tr) \<Rightarrow>
             prefix (filter pipeline_pass tr) pipeline_order
           \<and> (x = None \<longrightarrow> filter pipeline_pass tr = pipeline_order)
           \<and> never_before Ev_simplify Ev_identify_structures tr
           \<and> never_before Ev_build_def_use Ev_register_propagation tr
           \<and> never_before Ev_build_def_use Ev_new_instance_propgation tr)
       \<and> (\<forall>g1 v1 g2 ud2 du2 g3 v3 du3 ud3 g4 du4 ud4 g5 du5 ud5 g6 v6 du6 ud6 g7 du7 ud7
              g8 v8 du8 ud8 g9 g10 g11 idom g12.
             construct P b (dm_var_to_name self) (dm_exceptions self) = Inr (g1, v1)
           \<and> build_def_use P g1 (dm_lparams self) = Inr (g2, ud2, du2)
           \<and> split_variables P g2 v1 du2 ud2 = Inr (g3, v3, du3, ud3)
           \<and> dead_code_elimination P g3 du3 ud3 = Inr (g4, du4, ud4)
           \<and> register_propagation P g4 du4 ud4 = Inr (g5, du5, ud5)
           \<and> resolve_variables_type P g5 v3 du5 ud5 = Inr (g6, v6, du6, ud6)
           \<and> new_instance_propgation P g6 du6 ud6 = Inr (g7, du7, ud7)
           \<and> place_declarations P g7 (register_tmp_variables du7 v6) du7 ud7 = Inr (g8, v8, du8, ud8)
           \<and> split_if_nodes P g8 = Inr g9
           \<and> simplify P g9 = Inr g10
           \<and> compute_rpo P g10 = Inr g11
           \<and> immediate_dominators P g11 = Inr idom
           \<and> identify_structures P g11 idom = Inr g12
           \<longrightarrow> DvMethod_process P doAST self =
                 (case emit P doAST (Some g12) (holding self g12 v8) of
                    (x, self', tr) \<Rightarrow>
                      (x, self',
                       [Ev_construct, Ev_build_def_use, Ev_split_variables, Ev_dead_code_elimination,
                        Ev_register_propagation, Ev_resolve_variables_type, Ev_new_instance_propgation,
                        Ev_register_tmp_variables, Ev_place_declarations, Ev_split_if_nodes,
                        Ev_simplify, Ev_compute_rpo, Ev_immediate_dominators, Ev_identify_structures]
                       @ tr)))"
proof (intro conjI)
  show "DvMethod_process P doAST self = specified_process P doAST b self"
    using assms by (rule process_refines)
next
  obtain x self' tr where r: "DvMethod_process P doAST self = (x, self', tr)"
    by (cases "DvMethod_process P doAST self")
  from process_in_order [OF assms, of P doAST] r
  have p: "prefix (filter pipeline_pass tr) pipeline_order"
    and f: "x = None \<longrightarrow> filter pipeline_pass tr = pipeline_order"
    by (simp_all add: in_order_def)
  from order_never_before [OF p]
  have "never_before Ev_simplify Ev_identify_structures tr
      \<and> never_before Ev_build_def_use Ev_register_propagation tr
      \<and> never_before Ev_build_def_use Ev_new_instance_propgation tr"
    by (simp add: never_before_filter)
  with p f r show "case DvMethod_process P doAST self of (x, self', tr) \<Rightarrow>
             prefix (filter pipeline_pass tr) pipeline_order
           \<and> (x = None \<longrightarrow> filter pipeline_pass tr = pipeline_order)
           \<and> never_before Ev_simplify Ev_identify_structures tr
           \<and> never_before Ev_build_def_use Ev_register_propagation tr
           \<and> never_before Ev_build_def_use Ev_new_instance_propgation tr" by simp
next
  show "\<forall>g1 v1 g2 ud2 du2 g3 v3 du3 ud3 g4 du4 ud4 g5 du5 ud5 g6 v6 du6 ud6 g7 du7 ud7
              g8 v8 du8 ud8 g9 g10 g11 idom g12.
             construct P b (dm_var_to_name self) (dm_exceptions self) = Inr (g1, v1)
           \<and> build_def_use P g1 (dm_lparams self) = Inr (g2, ud2, du2)
           \<and> split_variables P g2 v1 du2 ud2 = Inr (g3, v3, du3, ud3)
           \<and> dead_code_elimination P g3 du3 ud3 = Inr (g4, du4, ud4)
           \<and> register_propagation P g4 du4 ud4 = Inr (g5, du5, ud5)
           \<and> resolve_variables_type P g5 v3 du5 ud5 = Inr (g6, v6, du6, ud6)
           \<and> new_instance_propgation P g6 du6 ud6 = Inr (g7, du7, ud7)
           \<and> place_declarations P g7 (register_tmp_variables du7 v6) du7 ud7 = Inr (g8, v8, du8, ud8)
           \<and> split_if_nodes P g8 = Inr g9
           \<and> simplify P g9 = Inr g10
           \<and> compute_rpo P g10 = Inr g11
           \<and> immediate_dominators P g11 = Inr idom
           \<and> identify_structures P g11 idom = Inr g12
           \<longrightarrow> DvMethod_process P doAST self =
                 (case emit P doAST (Some g12) (holding self g12 v8) of
                    (x, self', tr) \<Rightarrow>
                      (x, self',
                       [Ev_construct, Ev_build_def_use, Ev_split_variables, Ev_dead_code_elimination,
                        Ev_register_propagation, Ev_resolve_variables_type, Ev_new_instance_propgation,
                        Ev_register_tmp_variables, Ev_place_declarations, Ev_split_if_nodes,
                        Ev_simplify, Ev_compute_rpo, Ev_immediate_dominators, Ev_identify_structures]
                       @ tr))"
    by (intro allI impI, elim conjE) (simp add: DvMethod_process_def assms call_def split: prod.splits)
qed

lemma upper_tmp0: "py_upper ''tmp0'' = ''TMP0''"
  by code_simp

lemma marked_start: "dm_start_block marked_dvmethod = Some 0"
  by (simp add: marked_dvmethod_def demo_analysis_def DvMethod_init_def Let_def split_beta)

theorem pipeline_runs_in_fixed_order_witness:
  "dm_start_block marked_dvmethod = Some 0
   \<and> fst (DvMethod_process marking_passes False marked_dvmethod) = None
   \<and> dm_graph (fst (snd (DvMethod_process marking_passes False marked_dvmethod)))
       = Some [''construct'', ''build_def_use'', ''split_variables'', ''dead_code_elimination'',
               ''register_propagation'', ''resolve_variables_type'', ''new_instance_propgation'',
               ''tmp0 registered'', ''place_declarations'', ''split_if_nodes'', ''simplify'',
               ''compute_rpo'', ''identify_structures'']
   \<and> dm_writer (fst (snd (DvMethod_process marking_passes False marked_dvmethod))) = Some ''bar() {}''
   \<and> filter pipeline_pass (snd (snd (DvMethod_process marking_passes False marked_dvmethod))) = pipeline_order
   \<and> never_before Ev_simplify Ev_identify_structures
        (snd (snd (DvMethod_process marking_passes False marked_dvmethod)))"
proof -
  note main = pipeline_runs_in_fixed_order [OF marked_start, of marking_passes False]
  have run: "specified_process marking_passes False 0 marked_dvmethod =
          (None,
           (holding marked_dvmethod
              [''construct'', ''build_def_use'', ''split_variables'', ''dead_code_elimination'',
               ''register_propagation'', ''resolve_variables_type'', ''new_instance_propgation'',
               ''tmp0 registered'', ''place_declarations'', ''split_if_nodes'', ''simplify'',
               ''compute_rpo'', ''identify_structures'']
              ((dm_var_to_name marked_dvmethod)(TmpVar ''tmp0'' \<mapsto> UpperName ''TMP0'')))
             \<lparr>dm_writer := Some ''bar() {}''\<rparr>,
           [Ev_construct, Ev_build_def_use, Ev_split_variables, Ev_dead_code_elimination,
            Ev_register_propagation, Ev_resolve_variables_type, Ev_new_instance_propgation,
            Ev_register_tmp_variables, Ev_place_declarations, Ev_split_if_nodes, Ev_simplify,
            Ev_compute_rpo, Ev_immediate_dominators, Ev_identify_structures,
            Ev_Writer (Some [''construct'', ''build_def_use'', ''split_variables'', ''dead_code_elimination'',
               ''register_propagation'', ''resolve_variables_type'', ''new_instance_propgation'',
               ''tmp0 registered'', ''place_declarations'', ''split_if_nodes'', ''simplify'',
               ''compute_rpo'', ''identify_structures'']), Ev_write_method])"
    by (simp add: specified_process_def specified_pipeline_def marking_passes_def pass_step_def
          on_graph_def on_graph_maps_def on_all_def structure_step_def emit_def call_def holding_def
          upper_tmp0 marked_dvmethod_def demo_analysis_def demo_method_def
          DvMethod_init_def Let_def split_beta)
  from main have eq: "DvMethod_process marking_passes False marked_dvmethod =
                        specified_process marking_passes False 0 marked_dvmethod"
    by blast
  show ?thesis
    unfolding eq run by (simp add: marked_start holding_def pipeline_pass_def pipeline_order_def)
qed

lemma demo_start: "dm_start_block demo_dvmethod = Some 0"
  by (simp add: demo_dvmethod_def demo_analysis_def DvMethod_init_def Let_def split_beta)

lemma failing_run:
  "fst (DvMethod_process failing_passes False demo_dvmethod) = Some (Raised ''boom'')"
  "snd (snd (DvMethod_process failing_passes False demo_dvmethod)) =
     [Ev_construct, Ev_build_def_use, Ev_split_variables, Ev_dead_code_elimination,
      Ev_register_propagation, Ev_resolve_variables_type, Ev_new_instance_propgation,
      Ev_register_tmp_variables, Ev_place_declarations, Ev_split_if_nodes, Ev_simplify]"
  "dm_writer (fst (snd (DvMethod_process failing_passes False demo_dvmethod))) = None"
  by (simp_all add: DvMethod_process_def demo_start call_def emit_def demo_passes_def failing_passes_def
        holding_def demo_dvmethod_def demo_analysis_def DvMethod_init_def Let_def split_beta)

section \<open>The registers of the parameters\<close>

lemma bind_params_lparams:
  "fst (bind_params u start ps n (lp, v2n)) = lp @ param_registers u (start + n) ps"
  by (induction ps arbitrary: n lp v2n) (simp_all add: Let_def add.assoc)

lemma length_param_registers [simp]: "length (param_registers u r ps) = length ps"
  by (induction ps arbitrary: r) simp_all

lemma param_registers_lower:
  "\<forall>t. 0 \<le> get_type_size u t \<Longrightarrow> x \<in> set (param_registers u r ps) \<Longrightarrow> r \<le> x"
proof (induction ps arbitrary: r)
  case Nil
  then show ?case by simp
next
  case (Cons t ts)
  from Cons.prems(1) have "0 \<le> get_type_size u t" by simp
  with Cons show ?case by fastforce
qed

lemma param_registers_upper:
  "\<forall>t. 0 < get_type_size u t \<Longrightarrow> x \<in> set (param_registers u r ps)
     \<Longrightarrow> x < r + sum_list (map (get_type_size u) ps)"
proof (induction ps arbitrary: r)
  case Nil
  then show ?case by simp
next
  case (Cons t ts)
  from Cons.prems(1) have t: "0 < get_type_size u t" by simp
  have nn: "0 \<le> sum_list (map (get_type_size u) ts)"
    by (rule sum_list_nonneg) (use Cons.prems(1) in \<open>auto simp: less_imp_le\<close>)
  from Cons.prems(2) consider "x = r" | "x \<in> set (param_registers u (r + get_type_size u t) ts)" by auto
  then show ?case
  proof cases
    case 1
    with t nn show ?thesis by simp
  next
    case 2
    from Cons.IH [OF Cons.prems(1) 2] show ?thesis by (simp add: add.assoc)
  qed
qed

lemma bind_params_other:
  "RegVar x \<notin> RegVar ` set (param_registers u (start + n) ps)
     \<Longrightarrow> snd (bind_params u start ps n (lp, v2n)) (RegVar x) = v2n (RegVar x)"
  by (induction ps arbitrary: n lp v2n) (auto simp: Let_def add.assoc)

lemma bind_params_tmp:
  "snd (bind_params u start ps n (lp, v2n)) (TmpVar x) = v2n (TmpVar x)"
  by (induction ps arbitrary: n lp v2n) (auto simp: Let_def add.assoc)

lemma bind_params_dom:
  "dom (snd (bind_params u start ps n (lp, v2n))) = dom v2n \<union> RegVar ` set (param_registers u (start + n) ps)"
  by (induction ps arbitrary: n lp v2n) (auto simp: Let_def add.assoc)

lemma bind_params_binding:
  assumes "\<forall>t. 0 < get_type_size u t" and "i < length ps"
  shows "snd (bind_params u start ps n (lp, v2n)) (RegVar (param_registers u (start + n) ps ! i))
           = Some (Param (param_registers u (start + n) ps ! i) (ps ! i))"
  using assms(2)
proof (induction ps arbitrary: n lp v2n i)
  case Nil
  then show ?case by simp
next
  case (Cons t ts)
  have t: "0 < get_type_size u t" using assms(1) by simp
  show ?case
  proof (cases i)
    case 0
    have "start + n \<notin> set (param_registers u (start + (n + get_type_size u t)) ts)"
    proof
      assume "start + n \<in> set (param_registers u (start + (n + get_type_size u t)) ts)"
      then have "start + (n + get_type_size u t) \<le> start + n"
        using assms(1) by (intro param_registers_lower) (auto simp: less_imp_le)
      with t show False by simp
    qed
    then have "RegVar (start + n) \<notin> RegVar ` set (param_registers u (start + (n + get_type_size u t)) ts)"
      by auto
    from bind_params_other [OF this] 0 show ?thesis by (simp add: Let_def add.assoc)
  next
    case (Suc j)
    with Cons.prems have "j < length ts" by simp
    from Cons.IH [OF this] Suc show ?thesis by (simp add: Let_def add.assoc)
  qed
qed

text \<open>
  C5. For a method with code, \<^verbatim>\<open>DvMethod.__init__\<close> numbers the parameters from
  \<^verbatim>\<open>registers_size - ins_size\<close>: a method that is not static gets that register for \<^verbatim>\<open>this\<close>, and
  the explicit parameters follow, each one further than the one before by the size of that
  one's type. \<^verbatim>\<open>lparams\<close> is this list of registers, and the keys of \<^verbatim>\<open>var_to_name\<close> are exactly
  these registers. Where every type has a positive size, the first register is bound to the
  \<^verbatim>\<open>ThisParam\<close> of the class and every other one to the \<^verbatim>\<open>Param\<close> of its type, and all of them lie
  from \<^verbatim>\<open>registers_size - ins_size\<close> up to the sizes taken; where these sizes add up to
  \<^verbatim>\<open>ins_size\<close>, they are among the last \<^verbatim>\<open>ins_size\<close> registers of the frame.
\<close>

theorem parameter_registers:
  assumes code: "m_code (ma_method ma) = Some c"
  shows "let self = (DvMethod_init u fe ma adi :: ('b, 'x, 'g, 'w, 'j) dvmethod);
             start = registers_size c - ins_size c;
             static = (''static'' \<in> set (dm_access self));
             ps = dm_params_type self;
             regs = param_registers u (if static then start else start + 1) ps;
             this_slots = (if static then 0 else 1)
         in dm_lparams self = (if static then [] else [start]) @ regs
          \<and> dom (dm_var_to_name self) = RegVar ` set (dm_lparams self)
          \<and> ((\<forall>t. 0 < get_type_size u t) \<longrightarrow>
                (static \<or> dm_var_to_name self (RegVar start) = Some (ThisParam start (dm_cls_name self)))
              \<and> (\<forall>i < length ps.
                    dm_var_to_name self (RegVar (regs ! i)) = Some (Param (regs ! i) (ps ! i)))
              \<and> (\<forall>r \<in> set (dm_lparams self).
                    start \<le> r \<and> r < start + this_slots + sum_list (map (get_type_size u) ps))
              \<and> (this_slots + sum_list (map (get_type_size u) ps) = ins_size c \<longrightarrow>
                    (\<forall>r \<in> set (dm_lparams self). registers_size c - ins_size c \<le> r \<and> r < registers_size c)))"
proof -
  define m where "m = ma_method ma"
  define acc where "acc = get_access_method u (m_access_flags m)"
  define ps where "ps = get_params_type u (m_descriptor m)"
  define start where "start = registers_size c - ins_size c"
  define self where "self = (DvMethod_init u fe ma adi :: ('b, 'x, 'g, 'w, 'j) dvmethod)"
  define static where "static = (''static'' \<in> set acc)"
  define first where "first = (if static then start else start + 1)"
  define regs where "regs = param_registers u first ps"
  define slots :: int where "slots = (if static then 0 else 1)"
  have ip: "init_params u (m_code m) acc (m_class_name m) ps =
              (if static then bind_params u start ps 0 ([], Map.empty)
               else bind_params u (start + 1) ps 0 ([start], [RegVar start \<mapsto> ThisParam start (m_class_name m)]))"
    using code by (simp add: init_params_def m_def start_def static_def Let_def)
  have acc: "dm_access self = acc" and pt: "dm_params_type self = ps"
    and cls: "dm_cls_name self = m_class_name m"
    and lp: "dm_lparams self = fst (init_params u (m_code m) acc (m_class_name m) ps)"
    and vn: "dm_var_to_name self = snd (init_params u (m_code m) acc (m_class_name m) ps)"
    by (simp_all add: self_def DvMethod_init_def Let_def split_beta m_def acc_def ps_def)
  have lparams: "dm_lparams self = (if static then [] else [start]) @ regs"
    by (simp add: lp ip bind_params_lparams regs_def first_def)
  have dom: "dom (dm_var_to_name self) = RegVar ` set (dm_lparams self)"
    by (simp add: vn lparams ip bind_params_dom regs_def first_def)
  have bind: "(static \<or> dm_var_to_name self (RegVar start) = Some (ThisParam start (dm_cls_name self)))
            \<and> (\<forall>i < length ps. dm_var_to_name self (RegVar (regs ! i)) = Some (Param (regs ! i) (ps ! i)))
            \<and> (\<forall>r \<in> set (dm_lparams self). start \<le> r \<and> r < start + slots + sum_list (map (get_type_size u) ps))"
    if pos: "\<forall>t. 0 < get_type_size u t"
  proof (intro conjI)
    have nonneg: "\<forall>t. 0 \<le> get_type_size u t" using pos by (auto simp: less_imp_le)
    show "static \<or> dm_var_to_name self (RegVar start) = Some (ThisParam start (dm_cls_name self))"
    proof (cases static)
      case True
      then show ?thesis by simp
    next
      case False
      have "start \<notin> set (param_registers u (start + 1 + 0) ps)"
        using param_registers_lower [OF nonneg, of start "start + 1 + 0" ps] by auto
      then have "RegVar start \<notin> RegVar ` set (param_registers u (start + 1 + 0) ps)" by auto
      from bind_params_other [OF this] False show ?thesis by (simp add: vn ip cls)
    qed
    show "\<forall>i < length ps. dm_var_to_name self (RegVar (regs ! i)) = Some (Param (regs ! i) (ps ! i))"
    proof (intro allI impI)
      fix i assume i: "i < length ps"
      show "dm_var_to_name self (RegVar (regs ! i)) = Some (Param (regs ! i) (ps ! i))"
      proof (cases static)
        case True
        with bind_params_binding [OF pos i, of start 0] show ?thesis
          by (simp add: vn ip regs_def first_def)
      next
        case False
        with bind_params_binding [OF pos i, of "start + 1" 0] show ?thesis
          by (simp add: vn ip regs_def first_def)
      qed
    qed
    show "\<forall>r \<in> set (dm_lparams self). start \<le> r \<and> r < start + slots + sum_list (map (get_type_size u) ps)"
    proof
      fix r assume r: "r \<in> set (dm_lparams self)"
      have nn: "0 \<le> sum_list (map (get_type_size u) ps)"
        by (rule sum_list_nonneg) (use nonneg in auto)
      show "start \<le> r \<and> r < start + slots + sum_list (map (get_type_size u) ps)"
      proof (cases "r \<in> set regs")
        case True
        from param_registers_lower [OF nonneg True [unfolded regs_def]]
             param_registers_upper [OF pos True [unfolded regs_def]]
        show ?thesis by (auto simp: first_def slots_def split: if_splits)
      next
        case False
        with r lparams have "r = start" "\<not> static" by (auto split: if_splits)
        with nn show ?thesis by (simp add: slots_def)
      qed
    qed
  qed
  have last: "\<forall>r \<in> set (dm_lparams self). registers_size c - ins_size c \<le> r \<and> r < registers_size c"
    if pos: "\<forall>t. 0 < get_type_size u t" and tot: "slots + sum_list (map (get_type_size u) ps) = ins_size c"
  proof
    fix r assume "r \<in> set (dm_lparams self)"
    with bind [OF pos] have "start \<le> r \<and> r < start + slots + sum_list (map (get_type_size u) ps)" by blast
    with tot show "registers_size c - ins_size c \<le> r \<and> r < registers_size c" by (simp add: start_def)
  qed
  from lparams dom bind last show ?thesis
    unfolding Let_def self_def [symmetric] start_def [symmetric] acc pt static_def [symmetric]
      first_def [symmetric] regs_def [symmetric] slots_def [symmetric]
    by blast
qed

theorem parameter_registers_witness:
  "m_code (ma_method demo_analysis) = Some \<lparr> registers_size = 6, ins_size = 4 \<rparr>
   \<and> dm_lparams demo_dvmethod = [2, 3, 4]
   \<and> dm_var_to_name demo_dvmethod (RegVar 2) = Some (ThisParam 2 ''LFoo;'')
   \<and> dm_var_to_name demo_dvmethod (RegVar 3) = Some (Param 3 ''I'')
   \<and> dm_var_to_name demo_dvmethod (RegVar 4) = Some (Param 4 ''J'')"
  using parameter_registers [where ma = demo_analysis and c = "\<lparr> registers_size = 6, ins_size = 4 \<rparr>"
          and u = demo_util and fe = demo_frontend and adi = None,
          where ?'g = string and ?'w = string and ?'j = string]
  by (simp add: demo_dvmethod_def demo_analysis_def demo_method_def demo_util_def
        DvMethod_init_def init_params_def Let_def split_beta)

section \<open>The annotations of the parameters\<close>

text \<open>
  C8. For a method of a class with an annotations directory that has parameter annotations
  for it: if the extracted list is shorter than the list of parameter types by exactly one,
  an empty list is put in front of it; if the lengths differ in any other way, the extraction
  is dropped for one empty list per parameter (and a line is printed); if they agree, the
  extracted list is kept.
\<close>

theorem parameter_annotations_mismatch:
  assumes "adi = Some a"
    and "filter (\<lambda>x. fst x = m_method_idx (ma_method ma)) (parameter_annotations a) \<noteq> []"
  shows "let self = (DvMethod_init u fe ma adi :: ('b, 'x, 'g, 'w, 'j) dvmethod);
             pas = get_parameter_annotations fe
                     (filter (\<lambda>x. fst x = m_method_idx (ma_method ma)) (parameter_annotations a));
             n = length (dm_params_type self)
         in (n = length pas + 1 \<longrightarrow> dm_param_annotations self = [] # pas \<and> dm_printed self = [])
          \<and> (n \<noteq> length pas \<and> n \<noteq> length pas + 1 \<longrightarrow>
                dm_param_annotations self = replicate n []
              \<and> dm_printed self =
                  [''Failed to extract annotation from '' @ dm_cls_name self @ '' - '' @ dm_name self])
          \<and> (n = length pas \<longrightarrow> dm_param_annotations self = pas \<and> dm_printed self = [])"
  using assms
  by (auto simp: DvMethod_init_def init_annotations_def Let_def split_beta)

theorem parameter_annotations_mismatch_witness:
  "dm_params_type (DvMethod_init demo_util demo_frontend demo_analysis (Some (demo_adi [(0, 16), (1, 32)]))
      :: (nat, unit, string, string, string) dvmethod) = [''I'', ''J'']
   \<and> dm_param_annotations (DvMethod_init demo_util demo_frontend demo_analysis (Some (demo_adi [(0, 16), (1, 32)]))
      :: (nat, unit, string, string, string) dvmethod) = [[], []]
   \<and> get_parameter_annotations demo_frontend [(0, 16), (0, 32), (0, 48)] = [[], [], []]
   \<and> dm_param_annotations (DvMethod_init demo_util demo_frontend demo_analysis (Some (demo_adi [(0, 16), (0, 32), (0, 48)]))
      :: (nat, unit, string, string, string) dvmethod) = [[], []]
   \<and> dm_printed (DvMethod_init demo_util demo_frontend demo_analysis (Some (demo_adi [(0, 16), (1, 32)]))
      :: (nat, unit, string, string, string) dvmethod) = []
   \<and> dm_printed (DvMethod_init demo_util demo_frontend demo_analysis (Some (demo_adi [(0, 16), (0, 32), (0, 48)]))
      :: (nat, unit, string, string, string) dvmethod) = [''Failed to extract annotation from LFoo; - bar'']"
  using parameter_annotations_mismatch [of "Some (demo_adi [(0, 16), (1, 32)])" "demo_adi [(0, 16), (1, 32)]"
          demo_analysis demo_util demo_frontend, where ?'g = string and ?'w = string and ?'j = string]
        parameter_annotations_mismatch [of "Some (demo_adi [(0, 16), (0, 32), (0, 48)])" "demo_adi [(0, 16), (0, 32), (0, 48)]"
          demo_analysis demo_util demo_frontend, where ?'g = string and ?'w = string and ?'j = string]
  by (simp add: demo_adi_def demo_analysis_def demo_method_def demo_frontend_def demo_util_def
        DvMethod_init_def Let_def split_beta)

section \<open>Boolean fields\<close>

text \<open>
  What \<^verbatim>\<open>get_field_ast\<close> computes for a field of descriptor \<^verbatim>\<open>Z\<close> with an initial value other
  than \<^verbatim>\<open>None\<close>: \<^verbatim>\<open>literal_bool(val == 'True')\<close>, true exactly when the stored value is the string
  \<^verbatim>\<open>True\<close>.
\<close>

lemma boolean_field_compares_text:
  assumes "f_descriptor fld = ''Z''" and "init_value fld = Some v" and "v \<noteq> PyNone"
  shows "field_expr fld = Inr (Some (literal_bool (v = PyStr ''True'')))"
proof -
  have "py_eq_str v ''True'' = (v = PyStr ''True'')" by (cases v) auto
  with assms show ?thesis by (simp add: field_expr_def)
qed

text \<open>
  C6. The literal of a boolean field is to be decoded from the value of the stored constant,
  true for a value that is not zero. The code does not do it: for a field of descriptor \<^verbatim>\<open>Z\<close>
  whose stored value is Python's \<^verbatim>\<open>True\<close>, or the integer 1, \<^verbatim>\<open>get_field_ast\<close> gives the literal
  false, and only the text \<^verbatim>\<open>True\<close> gives true, while \<^verbatim>\<open>get_source\<close> writes the same stored
  \<^verbatim>\<open>True\<close> as the initialiser \<^verbatim>\<open>True\<close>.
\<close>

theorem boolean_field_true_decodes_false:
  "field_expr (bool_field (PyBool True)) = Inr (Some (literal_bool False))
   \<and> field_expr (bool_field (PyInt 1)) = Inr (Some (literal_bool False))
   \<and> field_expr (bool_field (PyBool False)) = Inr (Some (literal_bool False))
   \<and> field_expr (bool_field (PyStr ''True'')) = Inr (Some (literal_bool True))
   \<and> source_field demo_util (bool_field (PyBool True))
       = Inr [''    '', ''boolean flag = True;'' @ [CHR 0x0A]]"
  by (simp add: field_expr_def bool_field_def source_field_def source_value_def demo_util_def)

section \<open>String fields\<close>

lemma quoted_not_null: "[dquote] @ s @ [dquote] \<noteq> ''null''"
  by simp

text \<open>
  C9. For a field whose type name is \<^verbatim>\<open>String\<close> and that has an initial value: if the stored
  value is empty or absent (or false in any other way), \<^verbatim>\<open>get_source\<close> writes the initialiser
  \<^verbatim>\<open>""\<close> and \<^verbatim>\<open>get_source_ext\<close> the value token \<^verbatim>\<open> = ""\<close>. Whatever the stored value, the
  initialiser is a text in double quotes (or, in \<^verbatim>\<open>get_source_ext\<close>, an \<^verbatim>\<open>AttributeError\<close> for
  a value that is not a string), and never \<^verbatim>\<open>null\<close>.
\<close>

theorem string_field_empty_initializer:
  assumes ty: "get_type u (f_descriptor fld) = ''String''" and iv: "init_value fld = Some v"
  shows "(\<not> truthy v \<longrightarrow>
            source_value ''String'' fld v = Inr [dquote, dquote]
          \<and> ext_value ''String'' fld v = Inr ('' = '' @ [dquote, dquote])
          \<and> source_field u fld =
              Inr ([''    ''] @ (if get_access_field u (f_access_flags fld) \<noteq> []
                                 then [join '' '' (get_access_field u (f_access_flags fld)), '' ''] else [])
                   @ [''String '' @ f_name fld @ '' = '' @ [dquote, dquote] @ '';'' @ [CHR 0x0A]])
          \<and> (\<exists>front. ext_field u fld =
                Inr (''FIELD'', front @ [Tok ''FIELD_VALUE'' ('' = '' @ [dquote, dquote]),
                                         Tok ''FIELD_END'' ('';'' @ [CHR 0x0A])])))
       \<and> (\<exists>s. source_value ''String'' fld v = Inr ([dquote] @ s @ [dquote]))
       \<and> (ext_value ''String'' fld v = Inl AttributeError
            \<or> (\<exists>s. ext_value ''String'' fld v = Inr ('' = '' @ [dquote] @ s @ [dquote])))
       \<and> source_value ''String'' fld v \<noteq> Inr ''null''
       \<and> ext_value ''String'' fld v \<noteq> Inr '' = null''"
proof -
  have a: "source_value ''String'' fld v = Inr [dquote, dquote]"
          "ext_value ''String'' fld v = Inr ('' = '' @ [dquote, dquote])" if "\<not> truthy v"
    using that by (simp_all add: source_value_def ext_value_def)
  have b: "source_field u fld =
              Inr ([''    ''] @ (if get_access_field u (f_access_flags fld) \<noteq> []
                                 then [join '' '' (get_access_field u (f_access_flags fld)), '' ''] else [])
                   @ [''String '' @ f_name fld @ '' = '' @ [dquote, dquote] @ '';'' @ [CHR 0x0A]])"
    if "\<not> truthy v"
    using a(1) [OF that] by (simp add: source_field_def ty iv Let_def)
  have c: "\<exists>front. ext_field u fld =
                Inr (''FIELD'', front @ [Tok ''FIELD_VALUE'' ('' = '' @ [dquote, dquote]),
                                         Tok ''FIELD_END'' ('';'' @ [CHR 0x0A])])"
    if "\<not> truthy v"
    using a(2) [OF that] by (simp add: ext_field_def ty iv Let_def)
  have d: "\<exists>s. source_value ''String'' fld v = Inr ([dquote] @ s @ [dquote])"
    by (cases "truthy v") (auto simp: source_value_def)
  have e: "ext_value ''String'' fld v = Inl AttributeError
            \<or> (\<exists>s. ext_value ''String'' fld v = Inr ('' = '' @ [dquote] @ s @ [dquote]))"
    by (cases "truthy v"; cases v) (auto simp: ext_value_def)
  have f: "source_value ''String'' fld v \<noteq> Inr ''null''"
    using d by auto
  have g: "ext_value ''String'' fld v \<noteq> Inr '' = null''"
    using e by auto
  from a b c d e f g show ?thesis by blast
qed

theorem string_field_empty_initializer_witness:
  "get_type demo_util (f_descriptor (string_field (PyStr ''''))) = ''String''
   \<and> source_field demo_util (string_field (PyStr ''''))
       = Inr [''    '', ''public'', '' '', ''String s = '' @ [dquote, dquote] @ '';'' @ [CHR 0x0A]]
   \<and> source_field demo_util (string_field PyNone)
       = Inr [''    '', ''public'', '' '', ''String s = '' @ [dquote, dquote] @ '';'' @ [CHR 0x0A]]
   \<and> ext_value ''String'' (string_field PyNone) PyNone = Inr ('' = '' @ [dquote, dquote])"
  using string_field_empty_initializer [of demo_util "string_field (PyStr '''')" "PyStr ''''"]
        string_field_empty_initializer [of demo_util "string_field PyNone" PyNone]
  by (simp add: string_field_def demo_util_def)

section \<open>Processing a class\<close>
















section \<open>The AST of a class\<close>

lemma ast_methods_eq:
  "\<forall>slot \<in> set ms. \<forall>dm. slot = Decompiled dm \<longrightarrow> dm_ast dm \<noteq> Some []
     \<Longrightarrow> ast_methods ms = methods_with_ast ms"
proof (induction ms)
  case Nil
  then show ?case by (simp add: methods_with_ast_def)
next
  case (Cons slot ms)
  then have ih: "ast_methods ms = methods_with_ast ms" by simp
  show ?case
  proof (cases slot)
    case (Encoded m)
    with ih show ?thesis by (simp add: methods_with_ast_def)
  next
    case (Decompiled dm)
    with Cons.prems have "dm_ast dm \<noteq> Some []" by simp
    with ih Decompiled show ?thesis
      by (cases "dm_ast dm") (simp_all add: methods_with_ast_def)
  qed
qed
lemma collect_fails:
  "collect f xs = Inl e \<Longrightarrow> \<exists>x \<in> set xs. f x = Inl e"
  by (induction xs) (auto split: sum.splits)

lemma get_ast_fails_on_field:
  "DvClass_get_ast u self = Inl e \<Longrightarrow> \<exists>f \<in> set (dc_fields self). field_expr f = Inl e"
  by (auto simp: DvClass_get_ast_def get_field_ast_def Let_def split: sum.splits dest!: collect_fails)

text \<open>
  C10. \<^verbatim>\<open>DvClass.get_ast\<close> either raises the exception of a field whose literal cannot be
  decoded, or returns a dictionary with exactly the keys \<^verbatim>\<open>rawname\<close>, \<^verbatim>\<open>name\<close>, \<^verbatim>\<open>super\<close>,
  \<^verbatim>\<open>flags\<close>, \<^verbatim>\<open>isInterface\<close>, \<^verbatim>\<open>interfaces\<close>, \<^verbatim>\<open>annotations\<close>, \<^verbatim>\<open>fields\<close> and \<^verbatim>\<open>methods\<close>, in
  this order. Its \<^verbatim>\<open>methods\<close> are the ASTs of the entries that are a \<^verbatim>\<open>DvMethod\<close> with a true
  \<^verbatim>\<open>ast\<close>; as the AST of a method is a dictionary with keys, never an empty one, these are
  exactly the \<^verbatim>\<open>DvMethod\<close> entries whose \<^verbatim>\<open>ast\<close> is not \<^verbatim>\<open>None\<close>. Entries that were never processed
  and methods without AST are left out.
\<close>

theorem class_ast_keys_and_methods:
  "case DvClass_get_ast u self of
     Inl e \<Rightarrow> (\<exists>f \<in> set (dc_fields self). field_expr f = Inl e)
   | Inr d \<Rightarrow>
       map fst d = [''rawname'', ''name'', ''super'', ''flags'', ''isInterface'', ''interfaces'',
                    ''annotations'', ''fields'', ''methods'']
     \<and> map_of d ''methods'' = Some (AMethods (ast_methods (dc_methods self)))
     \<and> ((\<forall>slot \<in> set (dc_methods self). \<forall>dm. slot = Decompiled dm \<longrightarrow> dm_ast dm \<noteq> Some [])
          \<longrightarrow> map_of d ''methods'' = Some (AMethods (methods_with_ast (dc_methods self))))"
proof (cases "DvClass_get_ast u self")
  case (Inl e)
  with get_ast_fails_on_field [OF Inl] show ?thesis by simp
next
  case (Inr d)
  then obtain field_list where
    d: "d = [ (''rawname'', AStr (butlast (tl (dc_thisclass self)))),
              (''name'', AType (parse_descriptor (Some (dc_thisclass self)))),
              (''super'', AType (parse_descriptor (dc_superclass self))),
              (''flags'', AFlags (dc_access self)),
              (''isInterface'', ABool (''interface'' \<in> set (dc_access self))),
              (''interfaces'', ATypes (map (\<lambda>i. parse_descriptor (Some i)) (dc_interfaces self))),
              (''annotations'', AAnnotations (dc_class_annotations self)),
              (''fields'', AFields field_list),
              (''methods'', AMethods (ast_methods (dc_methods self))) ]"
    by (auto simp: DvClass_get_ast_def Let_def split: sum.splits)
  have keys: "map fst d = [''rawname'', ''name'', ''super'', ''flags'', ''isInterface'', ''interfaces'',
                           ''annotations'', ''fields'', ''methods'']"
    by (simp add: d)
  have meth: "map_of d ''methods'' = Some (AMethods (ast_methods (dc_methods self)))"
    by (simp add: d)
  show ?thesis
    unfolding Inr sum.case using keys meth ast_methods_eq [of "dc_methods self"] by auto
qed

lemma ast_class_fields_ok:
  "collect (\<lambda>f. get_field_ast demo_util f
             (case dc_field_annotations ast_class (f_field_idx f) of None \<Rightarrow> [] | Some a \<Rightarrow> a))
     (dc_fields ast_class) =
   Inr [\<lparr> fa_triple = (''Foo'', ''b'', ''B''), fa_type = parse_descriptor (Some ''B''), fa_flags = [],
           fa_annotations = [], fa_expr = Some (literal_hex_int (- 2)) \<rparr>,
        \<lparr> fa_triple = (''Foo'', ''s'', ''Ljava/lang/String;''),
           fa_type = parse_descriptor (Some ''Ljava/lang/String;''), fa_flags = [''public''],
           fa_annotations = [], fa_expr = Some (literal_string (PyStr '''')) \<rparr>]"
  by (simp add: ast_class_def demo_class_def DvClass_init_def demo_classdef_def Let_def split_beta
        get_field_ast_def field_expr_def byte_field_def string_field_def demo_util_def
        signed_byte_int prefix_def)

theorem class_ast_keys_and_methods_witness:
  "map_sum id (map fst) (DvClass_get_ast demo_util ast_class)
     = Inr [''rawname'', ''name'', ''super'', ''flags'', ''isInterface'', ''interfaces'',
            ''annotations'', ''fields'', ''methods'']
   \<and> map_sum id (\<lambda>d. map_of d ''methods'') (DvClass_get_ast demo_util ast_class)
     = Inr (Some (AMethods [[(''body'', ''[]'')]]))
   \<and> methods_with_ast (dc_methods ast_class) = [[(''body'', ''[]'')]]"
  using class_ast_keys_and_methods [where u = demo_util and self = ast_class]
  by (simp add: DvClass_get_ast_def ast_class_fields_ok)
     (simp add: ast_class_def methods_with_ast_def demo_dvmethod_def
        DvMethod_init_def Let_def split_beta)

section \<open>Looking a class up\<close>

lemma py_in_sublist: "py_in a b \<longleftrightarrow> sublist a b"
  by (induction b) (simp_all add: sublist_Cons_right)

lemma get_class_no_match:
  "\<forall>(n, k) \<in> set classes. \<not> sublist q n \<Longrightarrow> get_class u fe q classes = (None, classes)"
  by (induction classes) (auto simp: py_in_sublist)

text \<open>
  C7. \<^verbatim>\<open>DvMachine.get_class\<close> returns the first class, in the order of the dictionary, whose
  name has the query as a substring, as a \<^verbatim>\<open>DvClass\<close>: the one stored, or a new one that it
  stores under the same name. The classes after it are not looked at, so a later class
  whose name is the query exactly does not win.
\<close>

theorem get_class_first_substring_match:
  assumes "classes = pre @ (name, klass) # post"
    and "\<forall>(n, k) \<in> set pre. \<not> sublist q n" and "sublist q name"
  shows "get_class u fe q classes =
           (Some (as_dvclass u fe klass), pre @ (name, Class (as_dvclass u fe klass)) # post)"
  unfolding assms(1) using assms(2,3)
proof (induction pre)
  case Nil
  then show ?case by (cases klass) (simp_all add: py_in_sublist as_dvclass_def Let_def)
next
  case (Cons p pre)
  obtain n k where p: "p = (n, k)" by (cases p)
  with Cons show ?case by (simp add: py_in_sublist)
qed

lemma demo_lookup:
  "sublist ''Foo'' ''Lcom/example/FooBar;''"
proof -
  have "''Lcom/example/FooBar;'' = ''Lcom/example/'' @ ''Foo'' @ ''Bar;''" by simp
  then show ?thesis unfolding sublist_def by blast
qed

theorem get_class_first_substring_match_witness:
  "sublist ''Foo'' ''Lcom/example/FooBar;''
   \<and> map fst demo_classes = [''Lcom/example/FooBar;'', ''Lcom/example/Foo;'', ''Foo'']
   \<and> map_option dc_thisclass (fst (get_class demo_util demo_frontend ''Foo'' demo_classes))
        = Some ''Lcom/example/FooBar;''"
  using get_class_first_substring_match [of demo_classes "[]" "''Lcom/example/FooBar;''"
          "ClassDef (demo_classdef\<lparr> cd_name := ''Lcom/example/FooBar;'' \<rparr>)"
          "tl demo_classes" "''Foo''" demo_util demo_frontend] demo_lookup
  by (simp add: demo_classes_def as_dvclass_def DvClass_init_def Let_def split_beta)

end
